theory Spec2Isabelle
  imports Main "HOL-Library.Word" "HOL-Library.Sublist"
begin

unbundle bit_operations_syntax

section \<open>Declarations used by \<^verbatim>\<open>src/preferences/upgrade.cpp\<close>\<close>

text \<open>
  \<^verbatim>\<open>upgrade.cpp\<close> refers to enumerators that are declared in headers outside the
  translated file (\<^verbatim>\<open>WaveformWidgetType::Type\<close>, \<^verbatim>\<open>WaveformWidgetBackend\<close>,
  \<^verbatim>\<open>WaveformRendererSignalBase::Option\<close>, \<^verbatim>\<open>VSyncThread::VSyncMode\<close>) and to
  \<^verbatim>\<open>WaveformWidgetFactory::defaultType()\<close>. Their integer values are parameters of
  the model: every function below takes the record of declarations, and every theorem
  holds for all values of it that a C++ compiler accepts for the two \<^verbatim>\<open>switch\<close>
  statements (case labels are pairwise different).
\<close>

record declarations =
  WWT_Empty :: int
  WWT_Simple :: int
  WWT_Filtered :: int
  WWT_HSV :: int
  WWT_VSyncTest :: int
  WWT_Stacked :: int
  defaultType :: int
  Backend_None :: int
  Backend_AllShader :: int
  Option_None :: int
  Option_SplitStereoSignal :: int
  Option_HighDetail :: int
  Option_AllOptionsCombined :: int
  ST_DEFAULT :: int
  ST_MESA_VBLANK_MODE_1_DEPRECATED :: int
  ST_SGI_VIDEO_SYNC_DEPRECATED :: int
  ST_OML_SYNC_CONTROL_DEPRECATED :: int
  ST_FREE :: int
  ST_TIMER :: int
  ST_PLL :: int
  ST_COUNT :: int

text \<open>
  The case labels of the legacy-backend \<^verbatim>\<open>switch\<close> of \<^verbatim>\<open>upgradeToAllShaders\<close>
  (lines 77-136), in source order. C++ rejects a \<^verbatim>\<open>switch\<close> with two equal labels.
\<close>

definition legacy_case_labels :: "declarations \<Rightarrow> int list" where
  "legacy_case_labels d =
     [WWT_Empty d, WWT_VSyncTest d, 13, 3, 20, WWT_Simple d, WWT_Filtered d, 22,
      2, 4, 6, 19, 14, 21, WWT_HSV d, 24, WWT_Stacked d, 26, 18, 23, 12]"

text \<open>The case labels of the \<^verbatim>\<open>switch\<close> of \<^verbatim>\<open>upgradeDeprecatedVSyncModes\<close> (lines 143-160).\<close>

definition vsync_case_labels :: "declarations \<Rightarrow> int list" where
  "vsync_case_labels d =
     [ST_DEFAULT d, ST_MESA_VBLANK_MODE_1_DEPRECATED d, ST_SGI_VIDEO_SYNC_DEPRECATED d,
      ST_OML_SYNC_CONTROL_DEPRECATED d, ST_FREE d, ST_TIMER d, ST_PLL d, ST_COUNT d]"

text \<open>
  \<^verbatim>\<open>ST_COUNT\<close> is the sentinel that counts the modes, hence not negative. With it the
  guard of \<^verbatim>\<open>upgradeDeprecatedVSyncModes\<close> holds for every integer.
\<close>

definition well_formed_declarations :: "declarations \<Rightarrow> bool" where
  "well_formed_declarations d \<longleftrightarrow>
     distinct (legacy_case_labels d) \<and> distinct (vsync_case_labels d) \<and> 0 \<le> ST_COUNT d"

text \<open>
  The three removed codes of the group that line 125 calls the RGB waveform
  (AllShaderLRRGBWaveform, AllShaderTexturedRGB, GLSLRGBWaveform).
\<close>

definition rgb_codes :: "int list" where
  "rgb_codes = [18, 23, 12]"

text \<open>
  One instance of the declarations, used to evaluate the functions on concrete inputs:
  the current type codes keep the numbers of the removed enumerators named in the
  comments of the \<^verbatim>\<open>switch\<close> (GLSimple 5, GLSLFiltered 7, HSV 8, GLVSyncTest 9,
  GLSLRGBStacked 16), and the default type is the RGB code 12: the comment of line 125
  names the RGB waveform as the preferred one, and its group is the one that falls
  through to \<^verbatim>\<open>defaultType()\<close>.
\<close>

definition sample_declarations :: declarations where
  "sample_declarations =
     \<lparr> WWT_Empty = 0, WWT_Simple = 5, WWT_Filtered = 7, WWT_HSV = 8, WWT_VSyncTest = 9,
       WWT_Stacked = 16, defaultType = 12,
       Backend_None = 0, Backend_AllShader = 3,
       Option_None = 0, Option_SplitStereoSignal = 1, Option_HighDetail = 2,
       Option_AllOptionsCombined = 3,
       ST_DEFAULT = 0, ST_MESA_VBLANK_MODE_1_DEPRECATED = 1,
       ST_SGI_VIDEO_SYNC_DEPRECATED = 2, ST_OML_SYNC_CONTROL_DEPRECATED = 3,
       ST_FREE = 4, ST_TIMER = 5, ST_PLL = 6, ST_COUNT = 7 \<rparr>"

section \<open>The value remappers\<close>

text \<open>
  \<^verbatim>\<open>upgradeToAllShaders\<close> (lines 38-138). The result is the tuple
  (type, backend, options). The first \<^verbatim>\<open>switch\<close> is the allow-list of the
  all-shader branch; the second one is written as the chain of its case groups in
  source order, a \<^verbatim>\<open>[[fallthrough]]\<close> being the assignments of both groups.
\<close>

definition upgradeToAllShaders :: "declarations \<Rightarrow> int \<Rightarrow> int \<Rightarrow> int \<Rightarrow> int \<times> int \<times> int" where
  "upgradeToAllShaders d unsafeWaveformType unsafeWaveformBackend unsafeWaveformOption =
     (if Backend_AllShader d = unsafeWaveformBackend then
        (let waveformOption = unsafeWaveformOption AND Option_AllOptionsCombined d in
         if unsafeWaveformType = WWT_Simple d \<or> unsafeWaveformType = WWT_Filtered d \<or>
            unsafeWaveformType = WWT_HSV d \<or> unsafeWaveformType = WWT_Stacked d \<or>
            unsafeWaveformType = WWT_Empty d
         then (unsafeWaveformType, Backend_AllShader d, waveformOption)
         else (defaultType d, Backend_AllShader d, waveformOption))
      else
        (let waveformOption = Option_None d;
             waveformType = unsafeWaveformType;
             waveformBackend = Backend_AllShader d
         in
         if unsafeWaveformType = WWT_Empty d then
           (waveformType, Backend_None d, waveformOption)
         else if unsafeWaveformType = WWT_VSyncTest d \<or> unsafeWaveformType = 13 then
           (WWT_VSyncTest d, Backend_None d, waveformOption)
         else if unsafeWaveformType = 3 \<or> unsafeWaveformType = 20 \<or>
                 unsafeWaveformType = WWT_Simple d then
           (WWT_Simple d, waveformBackend, waveformOption)
         else if unsafeWaveformType = WWT_Filtered d \<or> unsafeWaveformType = 22 then
           (WWT_Filtered d, waveformBackend, Option_HighDetail d)
         else if unsafeWaveformType = 2 \<or> unsafeWaveformType = 4 \<or>
                 unsafeWaveformType = 6 \<or> unsafeWaveformType = 19 then
           (WWT_Filtered d, waveformBackend, waveformOption)
         else if unsafeWaveformType = 14 \<or> unsafeWaveformType = 21 \<or>
                 unsafeWaveformType = WWT_HSV d then
           (WWT_HSV d, waveformBackend, waveformOption)
         else if unsafeWaveformType = 24 \<or> unsafeWaveformType = WWT_Stacked d then
           (WWT_Stacked d, waveformBackend, Option_HighDetail d)
         else if unsafeWaveformType = 26 then
           (WWT_Stacked d, waveformBackend, waveformOption)
         else if unsafeWaveformType = 18 \<or> unsafeWaveformType = 23 \<or>
                 unsafeWaveformType = 12 then
           (defaultType d, waveformBackend,
            if unsafeWaveformType = 18 then Option_SplitStereoSignal d
            else Option_HighDetail d)
         else (defaultType d, waveformBackend, waveformOption)))"

text \<open>
  \<^verbatim>\<open>upgradeDeprecatedVSyncModes\<close> (lines 140-164). The guard is written with
  \<^verbatim>\<open>||\<close> in the source; a value that matches no label leaves the \<^verbatim>\<open>switch\<close> and
  reaches the final \<^verbatim>\<open>return VT::ST_DEFAULT\<close>.
\<close>

definition upgradeDeprecatedVSyncModes :: "declarations \<Rightarrow> int \<Rightarrow> int" where
  "upgradeDeprecatedVSyncModes d configVSyncMode =
     (if configVSyncMode \<ge> 0 \<or> configVSyncMode \<le> ST_COUNT d then
        (if configVSyncMode = ST_DEFAULT d then ST_DEFAULT d
         else if configVSyncMode = ST_MESA_VBLANK_MODE_1_DEPRECATED d then ST_DEFAULT d
         else if configVSyncMode = ST_SGI_VIDEO_SYNC_DEPRECATED d then ST_DEFAULT d
         else if configVSyncMode = ST_OML_SYNC_CONTROL_DEPRECATED d then ST_DEFAULT d
         else if configVSyncMode = ST_FREE d then ST_FREE d
         else if configVSyncMode = ST_TIMER d then ST_TIMER d
         else if configVSyncMode = ST_PLL d then ST_PLL d
         else if configVSyncMode = ST_COUNT d then ST_DEFAULT d
         else ST_DEFAULT d)
      else ST_DEFAULT d)"

section \<open>Strings, numbers and version numbers of the Qt library\<close>

text \<open>
  Configuration values are strings. \<^verbatim>\<open>ConfigValue(int)\<close> stores
  \<^verbatim>\<open>QString::number\<close> of the integer and \<^verbatim>\<open>getValue\<close> reads it back with
  \<^verbatim>\<open>QString::toInt\<close>. Both are modelled for base 10: an optional sign and decimal
  digits, the value within the range of a 32-bit \<^verbatim>\<open>int\<close> (white space around the
  number is not modelled).
\<close>

definition is_digit :: "char \<Rightarrow> bool" where
  "is_digit c \<longleftrightarrow> 48 \<le> (of_char c :: nat) \<and> (of_char c :: nat) \<le> 57"

definition digit_val :: "char \<Rightarrow> nat" where
  "digit_val c = of_char c - 48"

definition digit_char :: "nat \<Rightarrow> char" where
  "digit_char n = char_of (48 + n)"

definition nat_of_digits :: "string \<Rightarrow> nat" where
  "nat_of_digits ds = foldl (\<lambda>a c. 10 * a + digit_val c) 0 ds"

fun digits_of_nat :: "nat \<Rightarrow> string" where
  "digits_of_nat n =
     (if n < 10 then [digit_char n] else digits_of_nat (n div 10) @ [digit_char (n mod 10)])"

declare digits_of_nat.simps [simp del]

definition QString_number :: "int \<Rightarrow> string" where
  "QString_number n =
     (if n < 0 then CHR ''-'' # digits_of_nat (nat (- n)) else digits_of_nat (nat n))"

definition INT_MIN :: int where
  "INT_MIN = - 2147483648"

definition INT_MAX :: int where
  "INT_MAX = 2147483647"

definition QString_toInt :: "string \<Rightarrow> int option" where
  "QString_toInt s =
     (let (negative, ds) =
            (case s of
               c # r \<Rightarrow> if c = CHR ''-'' then (True, r)
                        else if c = CHR ''+'' then (False, r) else (False, s)
             | [] \<Rightarrow> (False, s));
          v = (if negative then - int (nat_of_digits ds) else int (nat_of_digits ds))
      in if ds \<noteq> [] \<and> list_all is_digit ds \<and> INT_MIN \<le> v \<and> v \<le> INT_MAX
         then Some v else None)"

text \<open>
  The subtraction of two \<^verbatim>\<open>int\<close> values. Signed overflow is undefined in C++; the
  model wraps around, and the theorems that depend on a difference state that it is
  in range.
\<close>

definition int_minus :: "int \<Rightarrow> int \<Rightarrow> int" where
  "int_minus a b = signed_take_bit 31 (a - b)"

text \<open>\<^verbatim>\<open>math_max\<close> of \<^verbatim>\<open>util/math.h\<close>: the larger of two values.\<close>

definition math_max :: "int \<Rightarrow> int \<Rightarrow> int" where
  "math_max a b = (if a < b then b else a)"

text \<open>\<^verbatim>\<open>QString::startsWith\<close>.\<close>

definition startsWith :: "string \<Rightarrow> string \<Rightarrow> bool" where
  "startsWith s p \<longleftrightarrow> prefix p s"

text \<open>
  \<^verbatim>\<open>QVersionNumber::fromString\<close>: the leading non-negative decimal numbers that are
  separated by periods; the rest of the string is the suffix and is ignored (white space
  or a sign before a number is not modelled). A version number is the list of its
  segments.
\<close>

function QVersionNumber_fromString :: "string \<Rightarrow> int list" where
  "QVersionNumber_fromString s =
     (let ds = takeWhile is_digit s; rest = dropWhile is_digit s in
      if ds = [] \<or> int (nat_of_digits ds) > INT_MAX then []
      else int (nat_of_digits ds) #
           (case rest of
              c # r \<Rightarrow> if c = CHR ''.'' then QVersionNumber_fromString r else []
            | [] \<Rightarrow> []))"
  by pat_completeness auto
termination
proof (relation "measure length")
  show "wf (measure length)"
    by simp
next
  fix s :: string and ds rest c r
  assume "rest = dropWhile is_digit s" and "rest = c # r"
  then have "length (c # r) \<le> length s"
    by (metis length_dropWhile_le)
  then show "(r, s) \<in> measure length"
    by simp
qed

declare QVersionNumber_fromString.simps [simp del]

text \<open>
  \<^verbatim>\<open>QVersionNumber::compare\<close>: negative, zero or positive. The segments are compared
  from the left; when one number is a prefix of the other, the first extra segment
  decides.
\<close>

fun QVersionNumber_compare :: "int list \<Rightarrow> int list \<Rightarrow> int" where
  "QVersionNumber_compare [] [] = 0"
| "QVersionNumber_compare (x # xs) [] = (if x \<noteq> 0 then x else 1)"
| "QVersionNumber_compare [] (y # ys) = (if y \<noteq> 0 then - y else - 1)"
| "QVersionNumber_compare (x # xs) (y # ys) =
     (if x \<noteq> y then (if x < y then - 1 else 1) else QVersionNumber_compare xs ys)"

definition version_less :: "int list \<Rightarrow> int list \<Rightarrow> bool" where
  "version_less a b \<longleftrightarrow> QVersionNumber_compare a b < 0"

definition version_greater_eq :: "int list \<Rightarrow> int list \<Rightarrow> bool" where
  "version_greater_eq a b \<longleftrightarrow> QVersionNumber_compare a b \<ge> 0"

text \<open>\<^verbatim>\<open>QDir(dir).filePath(name)\<close> for a relative name.\<close>

definition QDir_filePath :: "string \<Rightarrow> string \<Rightarrow> string" where
  "QDir_filePath dir name =
     (if dir \<noteq> [] \<and> last dir = CHR ''/'' then dir @ name else dir @ ''/'' @ name)"

section \<open>The configuration store\<close>

type_synonym ConfigKey = "string \<times> string"

text \<open>
  Modelled from the spec: \<^verbatim>\<open>ConfigObject<ConfigValue>\<close> is defined in
  \<^verbatim>\<open>preferences/configobject.cpp\<close>, outside the translated file. It is the table of
  the values of the (section, key) pairs, held in memory, together with the name of
  the file it was read from. \<^verbatim>\<open>set\<close> changes the table in memory; the file is
  written by \<^verbatim>\<open>save\<close> only, which the caller of the upgrade invokes.
\<close>

record ConfigObject =
  m_filename :: string
  m_values :: "ConfigKey \<rightharpoonup> string"

text \<open>
  Modelled from the spec: \<^verbatim>\<open>getValueString\<close> and \<^verbatim>\<open>getValue\<close> of \<^verbatim>\<open>ConfigObject\<close>.
  A key that is absent reads as the empty string; an integer that is absent or does not
  parse reads as the default.
\<close>

definition getValueString :: "ConfigObject \<Rightarrow> ConfigKey \<Rightarrow> string" where
  "getValueString c k = (case m_values c k of None \<Rightarrow> [] | Some v \<Rightarrow> v)"

text \<open>\<^verbatim>\<open>getValue(key, default)\<close> for \<^verbatim>\<open>int\<close>; \<^verbatim>\<open>getValue<int>(key)\<close> has the default 0.\<close>

definition getValue :: "ConfigObject \<Rightarrow> ConfigKey \<Rightarrow> int \<Rightarrow> int" where
  "getValue c k default_value =
     (case m_values c k of
        None \<Rightarrow> default_value
      | Some v \<Rightarrow> (case QString_toInt v of None \<Rightarrow> default_value | Some n \<Rightarrow> n))"

definition kVersion :: ConfigKey where
  "kVersion = (''[Config]'', ''Version'')"

definition kVSync :: ConfigKey where
  "kVSync = (''[Waveform]'', ''VSync'')"

definition kInitialReplayGainBoost :: ConfigKey where
  "kInitialReplayGainBoost = (''[ReplayGain]'', ''InitialReplayGainBoost'')"

definition kFrameRate :: ConfigKey where
  "kFrameRate = (''[Waveform]'', ''FrameRate'')"

definition kWaveformType :: ConfigKey where
  "kWaveformType = (''[Waveform]'', ''WaveformType'')"

definition kUseHardwareAcceleration :: ConfigKey where
  "kUseHardwareAcceleration = (''[Waveform]'', ''use_hardware_acceleration'')"

definition kWaveformOptions :: ConfigKey where
  "kWaveformOptions = (''[Waveform]'', ''waveform_options'')"

section \<open>Files, collaborators and the state of an upgrade\<close>

text \<open>
  The file system is the list of the files with their paths. A settings file is
  identified with the table its text parses to; the content of other files is carried
  along unread. Directories are not entries of their own: \<^verbatim>\<open>mkpath\<close> leaves the list
  as it is, and a directory exists when a file lies below it.
\<close>

type_synonym filesystem = "(string \<times> (ConfigKey \<rightharpoonup> string)) list"

text \<open>
  The system finds the same file under a path whatever the number of separators between
  two of its components: line 452 builds \<^verbatim>\<open>settingsPath + "/" + cur\<close>, which has two
  separators when the settings path ends with one, and line 465 opens the file under
  \<^verbatim>\<open>QDir(settingsPath).filePath(...)\<close>, which has one. Paths are compared with their
  separators made single (links and the components \<^verbatim>\<open>.\<close> and \<^verbatim>\<open>..\<close> are not
  modelled).
\<close>

fun single_separators :: "string \<Rightarrow> string" where
  "single_separators (a # b # r) =
     (if a = CHR ''/'' \<and> b = CHR ''/'' then single_separators (b # r)
      else a # single_separators (b # r))"
| "single_separators r = r"

definition file_at :: "filesystem \<Rightarrow> string \<Rightarrow> (ConfigKey \<rightharpoonup> string) option" where
  "file_at files path =
     map_of (map (\<lambda>(p, content). (single_separators p, content)) files)
       (single_separators path)"

datatype Platform = Apple | Windows | Other

datatype AddResult = AddResult_Ok | AddResult_Error

text \<open>The calls on collaborators, in program order.\<close>

datatype event =
    ConfigSet ConfigKey string
  | FileCopy string string bool
  | FileRemove string bool
  | DirRename string string bool
  | AskReanalyzeBeats bool
  | AskReScanLibrary bool
  | InitDatabaseSchema bool
  | AddDirectory string AddResult

text \<open>
  What the run is given from outside: the declarations, the build (platform, running
  version, name of the settings file), the process (home directory, whether a settings
  path was given on the command line), the answers of the user to the two prompts,
  the results of the database and library collaborators, whether the operating system
  permits a copy, a removal or a renaming, and the keys and directories that headers
  outside the translated file define.
\<close>

record environment =
  decls :: declarations
  platform :: Platform
  version :: string
  MIXXX_SETTINGS_FILE :: string
  homePath :: string
  getSettingsPathSet :: bool
  askReanalyzeBeats :: bool
  askReScanLibrary :: bool
  isPooling :: bool
  initDatabaseSchema :: bool
  addDirectory :: "string \<Rightarrow> AddResult"
  copy_permitted :: "string \<Rightarrow> string \<Rightarrow> bool"
  remove_permitted :: "string \<Rightarrow> bool"
  rename_permitted :: "string \<Rightarrow> string \<Rightarrow> bool"
  kLegacyDirectoryConfigKey :: ConfigKey
  kReanalyzeWhenSettingsChange :: ConfigKey
  legacyUserMappingsPath :: "ConfigObject \<Rightarrow> string"
  userMappingsPath :: "ConfigObject \<Rightarrow> string"

record io_state =
  fs :: filesystem
  trace :: "event list"

text \<open>
  The state of \<^verbatim>\<open>Upgrade::versionUpgrade\<close>: the files, the calls made so far, the
  store \<^verbatim>\<open>config\<close>, the local variable \<^verbatim>\<open>configVersion\<close>, the two members of the
  \<^verbatim>\<open>Upgrade\<close> object and the settings path of \<^verbatim>\<open>CmdlineArgs\<close> when the run reassigns it.
\<close>

record upgrade_state = io_state +
  config :: ConfigObject
  configVersion :: string
  m_bFirstRun :: bool
  m_bRescanLibrary :: bool
  cmdlineSettingsPath :: "string option"

section \<open>File operations\<close>

definition QFile_exists :: "filesystem \<Rightarrow> string \<Rightarrow> bool" where
  "QFile_exists files path \<longleftrightarrow> file_at files path \<noteq> None"

text \<open>
  \<^verbatim>\<open>QFile::copy\<close> fails when the source does not exist, when the destination exists
  (error 14 of lines 210, 234, 258, 289) or when the system refuses; an existing file
  is never overwritten.
\<close>

definition QFile_copy ::
  "environment \<Rightarrow> string \<Rightarrow> string \<Rightarrow> 'a io_state_scheme \<Rightarrow> bool \<times> 'a io_state_scheme" where
  "QFile_copy e src dest io =
     (case file_at (fs io) src of
        None \<Rightarrow> (False, io\<lparr>trace := trace io @ [FileCopy src dest False]\<rparr>)
      | Some content \<Rightarrow>
          if QFile_exists (fs io) dest \<or> \<not> copy_permitted e src dest
          then (False, io\<lparr>trace := trace io @ [FileCopy src dest False]\<rparr>)
          else (True, io\<lparr>fs := fs io @ [(dest, content)],
                          trace := trace io @ [FileCopy src dest True]\<rparr>))"

definition QFile_remove :: "environment \<Rightarrow> string \<Rightarrow> 'a io_state_scheme \<Rightarrow> 'a io_state_scheme" where
  "QFile_remove e path io =
     (if QFile_exists (fs io) path \<and> remove_permitted e path
      then io\<lparr>fs := filter (\<lambda>(p, content). single_separators p \<noteq> single_separators path)
                          (fs io),
               trace := trace io @ [FileRemove path True]\<rparr>
      else io\<lparr>trace := trace io @ [FileRemove path False]\<rparr>)"

text \<open>\<^verbatim>\<open>QDir::entryList(QDir::Files | QDir::NoDotAndDotDot)\<close>: the names of the files in a directory.\<close>

definition QDir_entryList :: "filesystem \<Rightarrow> string \<Rightarrow> string list" where
  "QDir_entryList files dir =
     (let d = single_separators (QDir_filePath dir []) in
      map (\<lambda>(p, content). drop (length d) (single_separators p))
        (filter (\<lambda>(p, content). prefix d (single_separators p) \<and>
                   drop (length d) (single_separators p) \<noteq> [] \<and>
                   CHR ''/'' \<notin> set (drop (length d) (single_separators p))) files))"

text \<open>
  \<^verbatim>\<open>QDir::rename\<close> of a directory: every file below the old name moves below the new
  one. It fails when nothing lies below the old name, when something lies below the
  new one, or when the system refuses.
\<close>

definition QDir_rename ::
  "environment \<Rightarrow> string \<Rightarrow> string \<Rightarrow> 'a io_state_scheme \<Rightarrow> 'a io_state_scheme" where
  "QDir_rename e oldName newName io =
     (let old = single_separators (oldName @ ''/'');
          new = single_separators (newName @ ''/'')
      in
      if list_ex (\<lambda>(p, content). prefix old (single_separators p)) (fs io) \<and>
         \<not> list_ex (\<lambda>(p, content). prefix new (single_separators p)) (fs io) \<and>
         rename_permitted e oldName newName
      then io\<lparr>fs := map (\<lambda>(p, content).
                          if prefix old (single_separators p)
                          then (new @ drop (length old) (single_separators p), content)
                          else (p, content)) (fs io),
               trace := trace io @ [DirRename oldName newName True]\<rparr>
      else io\<lparr>trace := trace io @ [DirRename oldName newName False]\<rparr>)"

text \<open>
  Modelled from the spec: the constructor of \<^verbatim>\<open>ConfigObject\<close> (outside the translated
  file) loads the store from a file; a file that does not exist gives the empty store.
\<close>

definition ConfigObject_load :: "filesystem \<Rightarrow> string \<Rightarrow> ConfigObject" where
  "ConfigObject_load files path =
     \<lparr> m_filename = path,
       m_values = (case file_at files path of None \<Rightarrow> Map.empty | Some content \<Rightarrow> content) \<rparr>"

text \<open>
  Modelled from the spec: \<^verbatim>\<open>ConfigObject::save\<close> (outside the translated file, and
  not called by it) writes the store to its file. It is how the caller persists the store.
\<close>

definition ConfigObject_save :: "ConfigObject \<Rightarrow> filesystem \<Rightarrow> filesystem" where
  "ConfigObject_save c files =
     (m_filename c, m_values c) #
     filter (\<lambda>(p, content). single_separators p \<noteq> single_separators (m_filename c)) files"

text \<open>
  Modelled from the spec: \<^verbatim>\<open>ConfigObject::set\<close> (\<^verbatim>\<open>preferences/configobject.cpp\<close>,
  outside the translated file), called as \<^verbatim>\<open>config->set(key, ConfigValue(value))\<close>,
  gives the key its value in the store in memory: the spec lists get, set and save as
  three operations of the store and has the store mutated in place by the ladder and
  persisted by the caller. The comment of lines 463-464 (the store is reloaded so that
  it is saved to the new location later) reads the same way. The call is recorded.
\<close>

definition config_set :: "ConfigKey \<Rightarrow> string \<Rightarrow> upgrade_state \<Rightarrow> upgrade_state" where
  "config_set k v s =
     s\<lparr>config := (config s)\<lparr>m_values := (m_values (config s))(k \<mapsto> v)\<rparr>,
       trace := trace s @ [ConfigSet k v]\<rparr>"

section \<open>\<^verbatim>\<open>Upgrade::versionUpgrade\<close>\<close>

subsection \<open>Before version 1.7.0 (lines 171-304)\<close>

text \<open>
  \<^verbatim>\<open>if (oldFile->copy(newFilePath)) oldFile->remove();\<close> (lines 206-219 and their
  repetitions): a failed copy is logged and the old file stays.
\<close>

definition copy_then_remove :: "environment \<Rightarrow> string \<Rightarrow> string \<Rightarrow> io_state \<Rightarrow> io_state" where
  "copy_then_remove e oldFilePath newFilePath io =
     (case QFile_copy e oldFilePath newFilePath io of
        (True, io') \<Rightarrow> QFile_remove e oldFilePath io'
      | (False, io') \<Rightarrow> io')"

definition move_legacy_file :: "environment \<Rightarrow> string \<Rightarrow> string \<Rightarrow> io_state \<Rightarrow> io_state" where
  "move_legacy_file e oldFilePath newFilePath io =
     (if QFile_exists (fs io) oldFilePath
      then copy_then_remove e oldFilePath newFilePath io
      else io)"

definition pre170ConfigPath :: "environment \<Rightarrow> string" where
  "pre170ConfigPath e =
     QDir_filePath (homePath e) (if platform e = Windows then ''mixxx.cfg'' else ''.mixxx.cfg'')"

definition settingsFilePath :: "environment \<Rightarrow> string \<Rightarrow> string" where
  "settingsFilePath e settingsPath = QDir_filePath settingsPath (MIXXX_SETTINGS_FILE e)"

definition relocate_pre170 :: "environment \<Rightarrow> string \<Rightarrow> io_state \<Rightarrow> io_state" where
  "relocate_pre170 e settingsPath io =
     (let oldLocation = homePath e;
          windows = (platform e = Windows)
      in
      if QFile_exists (fs io) (pre170ConfigPath e) then
        (let newLocation = settingsPath;
             io1 = move_legacy_file e
                     (QDir_filePath oldLocation
                        (if windows then ''mixxxtrack.xml'' else ''.mixxxtrack.xml''))
                     (QDir_filePath newLocation ''mixxxtrack.xml'') io;
             io2 = move_legacy_file e
                     (QDir_filePath oldLocation
                        (if windows then ''mixxxbpmschemes.xml'' else ''.mixxxbpmscheme.xml''))
                     (QDir_filePath newLocation ''mixxxbpmscheme.xml'') io1;
             io3 = move_legacy_file e
                     (QDir_filePath oldLocation
                        (if windows then ''MixxxMIDIBindings.xml'' else ''.MixxxMIDIBindings.xml''))
                     (QDir_filePath newLocation ''MixxxMIDIBindings.xml'') io2;
             io4 = QFile_remove e
                     (QDir_filePath oldLocation
                        (if windows then ''MixxxMIDIDevice.xml'' else ''.MixxxMIDIDevice.xml'')) io3
         in copy_then_remove e (pre170ConfigPath e) (settingsFilePath e newLocation) io4)
      else io)"

subsection \<open>The steps of the ladder (lines 405-624)\<close>

definition step_1_7 :: "upgrade_state \<Rightarrow> upgrade_state" where
  "step_1_7 s =
     (if startsWith (configVersion s) ''1.7''
      then config_set kVersion ''1.8.0'' (s\<lparr>configVersion := ''1.8.0''\<rparr>)
      else s)"

definition step_1_8_beta :: "upgrade_state \<Rightarrow> upgrade_state" where
  "step_1_8_beta s =
     (if startsWith (configVersion s) ''1.8.0~beta1'' \<or>
         startsWith (configVersion s) ''1.8.0~beta2''
      then config_set kVersion ''1.8.0'' (s\<lparr>configVersion := ''1.8.0''\<rparr>)
      else s)"

text \<open>The inner loop of lines 448-458: a failed copy is logged and nothing else.\<close>

fun osx_copy_files ::
  "environment \<Rightarrow> string \<Rightarrow> string \<Rightarrow> string list \<Rightarrow> upgrade_state \<Rightarrow> upgrade_state" where
  "osx_copy_files e first second [] s = s"
| "osx_copy_files e first second (cur # contents) s =
     osx_copy_files e first second contents
       (snd (QFile_copy e (first @ ''/'' @ cur) (second @ ''/'' @ cur) s))"

text \<open>The outer loop of lines 436-462; the old directory is renamed in every round.\<close>

fun osx_move_dirs ::
  "environment \<Rightarrow> string \<Rightarrow> (string \<times> string) list \<Rightarrow> upgrade_state \<Rightarrow> upgrade_state" where
  "osx_move_dirs e OSXLocation180 [] s = s"
| "osx_move_dirs e OSXLocation180 (curPair # dirsToMove) s =
     osx_move_dirs e OSXLocation180 dirsToMove
       (QDir_rename e OSXLocation180 (OSXLocation180 @ ''-1.8'')
          (osx_copy_files e (fst curPair) (snd curPair)
             (QDir_entryList (fs s) (fst curPair)) s))"

definition osx_relocate :: "environment \<Rightarrow> string \<Rightarrow> upgrade_state \<Rightarrow> upgrade_state" where
  "osx_relocate e settingsPath s =
     (let OSXLocation180 = homePath e @ ''/'' @ ''.mixxx'';
          OSXLocation190 = settingsPath;
          dirsToMove = [(OSXLocation180, OSXLocation190),
                        (OSXLocation180 @ ''/midi'', OSXLocation190 @ ''midi''),
                        (OSXLocation180 @ ''/presets'', OSXLocation190 @ ''presets'')];
          s' = osx_move_dirs e OSXLocation180 dirsToMove s
      in s'\<lparr>config := ConfigObject_load (fs s') (settingsFilePath e settingsPath)\<rparr>)"

definition step_1_8 :: "environment \<Rightarrow> string \<Rightarrow> upgrade_state \<Rightarrow> upgrade_state" where
  "step_1_8 e settingsPath s =
     (if startsWith (configVersion s) ''1.8'' \<or> startsWith (configVersion s) ''1.9.0beta1''
      then config_set kVersion ''1.9.0''
             ((if platform e = Apple then osx_relocate e settingsPath s else s)
                \<lparr>configVersion := ''1.9.0''\<rparr>)
      else s)"

text \<open>
  The loop of lines 487-501 over the names in the old mapping directory, with the
  local variable \<^verbatim>\<open>successful\<close>.
\<close>

fun copy_mappings ::
  "environment \<Rightarrow> string \<Rightarrow> string \<Rightarrow> string list \<Rightarrow> bool \<times> upgrade_state \<Rightarrow> bool \<times> upgrade_state" where
  "copy_mappings e oldDir newDir [] (successful, s) = (successful, s)"
| "copy_mappings e oldDir newDir (cur # contents) (successful, s) =
     (if QFile_exists (fs s) (QDir_filePath newDir cur)
      then copy_mappings e oldDir newDir contents (successful, s)
      else (case QFile_copy e (QDir_filePath oldDir cur) (QDir_filePath newDir cur) s of
              (copied, s') \<Rightarrow>
                copy_mappings e oldDir newDir contents
                  (if \<not> copied then False else successful, s')))"

text \<open>
  Modelled from the spec: \<^verbatim>\<open>BeatDetectionSettings::setReanalyzeWhenSettingsChange\<close>
  (\<^verbatim>\<open>preferences/beatdetectionsettings.h\<close>, outside the translated file) persists the
  choice in the store, under its own key.
\<close>

definition setReanalyzeWhenSettingsChange :: "environment \<Rightarrow> bool \<Rightarrow> upgrade_state \<Rightarrow> upgrade_state" where
  "setReanalyzeWhenSettingsChange e choice s =
     config_set (kReanalyzeWhenSettingsChange e) (QString_number (if choice then 1 else 0)) s"

definition step_1_9 :: "environment \<Rightarrow> upgrade_state \<Rightarrow> upgrade_state" where
  "step_1_9 e s =
     (if startsWith (configVersion s) ''1.9'' \<or> startsWith (configVersion s) ''1.10'' then
        (let midiPath = legacyUserMappingsPath e (config s);
             controllerPath = userMappingsPath e (config s);
             contents = QDir_entryList (fs s) midiPath;
             (successful, s1) = copy_mappings e midiPath controllerPath contents (True, s);
             reanalyze_choice = askReanalyzeBeats e;
             s2 = s1\<lparr>trace := trace s1 @ [AskReanalyzeBeats reanalyze_choice]\<rparr>;
             s3 = setReanalyzeWhenSettingsChange e reanalyze_choice s2
         in
         if successful
         then config_set kVersion ''1.11.0'' (s3\<lparr>configVersion := ''1.11.0''\<rparr>)
         else s3)
      else s)"

text \<open>
  The database block of lines 520-550: the value of \<^verbatim>\<open>successful\<close> and the calls made.
  What the collaborators write to the track database is not modelled; the settings
  file is not theirs to write.
\<close>

definition migrate_library_directory :: "environment \<Rightarrow> upgrade_state \<Rightarrow> bool \<times> upgrade_state" where
  "migrate_library_directory e s =
     (if isPooling e then
        (let s1 = s\<lparr>trace := trace s @ [InitDatabaseSchema (initDatabaseSchema e)]\<rparr> in
         if initDatabaseSchema e then
           (let currentFolder = getValueString (config s1) (kLegacyDirectoryConfigKey e);
                result = addDirectory e currentFolder
            in (result = AddResult_Ok,
                s1\<lparr>trace := trace s1 @ [AddDirectory currentFolder result]\<rparr>))
         else (False, s1))
      else (False, s))"

definition step_1_11 :: "environment \<Rightarrow> upgrade_state \<Rightarrow> upgrade_state" where
  "step_1_11 e s =
     (if startsWith (configVersion s) ''1.11'' then
        (let (successful, s1) = migrate_library_directory e s;
             s2 = s1\<lparr>m_bRescanLibrary := askReScanLibrary e,
                     trace := trace s1 @ [AskReScanLibrary (askReScanLibrary e)]\<rparr>;
             oldReplayGain = getValue (config s2) kInitialReplayGainBoost 6;
             newReplayGain = math_max (- 6) (int_minus oldReplayGain 6);
             s3 = config_set kInitialReplayGainBoost (QString_number newReplayGain) s2
         in
         if successful
         then config_set kVersion ''1.12.0'' (s3\<lparr>configVersion := ''1.12.0''\<rparr>)
         else s3)
      else s)"

definition step_framerate :: "upgrade_state \<Rightarrow> upgrade_state" where
  "step_framerate s =
     (if version_less (QVersionNumber_fromString (configVersion s)) [2, 4, 0]
      then config_set kFrameRate (QString_number 60) s
      else s)"

text \<open>The condition of lines 587-589.\<close>

definition waveform_gate :: "environment \<Rightarrow> string \<Rightarrow> bool" where
  "waveform_gate e v \<longleftrightarrow>
     version_less (QVersionNumber_fromString v) [2, 6, 0] \<or>
     (version e \<noteq> ''2.6.0-beta'' \<and> startsWith v ''2.6.0-'')"

text \<open>The body of the waveform step (lines 590-613).\<close>

definition waveform_body :: "environment \<Rightarrow> upgrade_state \<Rightarrow> upgrade_state" where
  "waveform_body e s =
     (let waveformType = getValue (config s) kWaveformType 0;
          waveformBackend = getValue (config s) kUseHardwareAcceleration 0;
          waveformOption = getValue (config s) kWaveformOptions 0;
          (correctedWaveformType, correctedWaveformBacked, correctedWaveformOption) =
             upgradeToAllShaders (decls e) waveformType waveformBackend waveformOption;
          s1 = config_set kWaveformType (QString_number correctedWaveformType) s;
          s2 = config_set kUseHardwareAcceleration (QString_number correctedWaveformBacked) s1;
          s3 = config_set kWaveformOptions (QString_number correctedWaveformOption) s2
      in config_set kVersion ''2.6.0'' (s3\<lparr>configVersion := ''2.6.0''\<rparr>))"

definition step_waveform :: "environment \<Rightarrow> upgrade_state \<Rightarrow> upgrade_state" where
  "step_waveform e s =
     (if waveform_gate e (configVersion s) then waveform_body e s else s)"

definition step_clean :: "environment \<Rightarrow> upgrade_state \<Rightarrow> upgrade_state" where
  "step_clean e s =
     (if version_greater_eq (QVersionNumber_fromString (configVersion s)) [2, 6, 0]
      then config_set kVersion (version e) (s\<lparr>configVersion := version e\<rparr>)
      else s)"

text \<open>The steps that are chosen by a prefix of the version string (lines 405-577).\<close>

definition early_steps :: "environment \<Rightarrow> string \<Rightarrow> upgrade_state \<Rightarrow> upgrade_state" where
  "early_steps e settingsPath s =
     step_1_11 e (step_1_9 e (step_1_8 e settingsPath (step_1_8_beta (step_1_7 s))))"

definition ladder :: "environment \<Rightarrow> string \<Rightarrow> upgrade_state \<Rightarrow> upgrade_state" where
  "ladder e settingsPath s =
     step_clean e (step_waveform e (step_framerate (early_steps e settingsPath s)))"

subsection \<open>The whole function (lines 169-634)\<close>

text \<open>Lines 372-380 and the ladder: what follows once a version has been read.\<close>

definition upgrade_versioned :: "environment \<Rightarrow> string \<Rightarrow> upgrade_state \<Rightarrow> upgrade_state" where
  "upgrade_versioned e settingsPath s =
     (let s1 = config_set kVSync
                 (QString_number (upgradeDeprecatedVSyncModes (decls e) (getValue (config s) kVSync 0))) s
      in if configVersion s1 = version e then s1 else ladder e settingsPath s1)"

text \<open>Lines 359-364: the first run.\<close>

definition first_run :: "environment \<Rightarrow> upgrade_state \<Rightarrow> upgrade_state" where
  "first_run e s = (config_set kVersion (version e) s)\<lparr>m_bFirstRun := True\<rparr>"

text \<open>The legacy settings file that lines 323-358 look for on macOS and on Windows.\<close>

definition legacyConfigPath :: "environment \<Rightarrow> string option" where
  "legacyConfigPath e =
     (case platform e of
        Apple \<Rightarrow> Some (homePath e @ ''/.mixxx/mixxx.cfg'')
      | Windows \<Rightarrow> Some (homePath e @ ''/Local Settings/Application Data/Mixxx/mixxx.cfg'')
      | Other \<Rightarrow> None)"

definition legacySettingsPath :: "environment \<Rightarrow> string" where
  "legacySettingsPath e =
     (if platform e = Apple then homePath e @ ''/.mixxx/''
      else homePath e @ ''/Local Settings/Application Data/Mixxx/'')"

text \<open>Lines 171-319: the files are relocated, then the store is loaded and its version read.\<close>

definition loaded_state :: "environment \<Rightarrow> string \<Rightarrow> filesystem \<Rightarrow> upgrade_state" where
  "loaded_state e settingsPath files =
     (let io = relocate_pre170 e settingsPath \<lparr>fs = files, trace = []\<rparr>;
          loaded = ConfigObject_load (fs io) (settingsFilePath e settingsPath)
      in \<lparr>fs = fs io, trace = trace io, config = loaded,
           configVersion = getValueString loaded kVersion,
           m_bFirstRun = False, m_bRescanLibrary = False, cmdlineSettingsPath = None\<rparr>)"

definition versionUpgrade :: "environment \<Rightarrow> string \<Rightarrow> filesystem \<Rightarrow> upgrade_state" where
  "versionUpgrade e settingsPath files =
     (let s = loaded_state e settingsPath files in
      if configVersion s = [] then
        (case legacyConfigPath e of
           None \<Rightarrow> first_run e s
         | Some oldConfigFile \<Rightarrow>
             if QFile_exists (fs s) oldConfigFile \<and> \<not> getSettingsPathSet e then
               (let legacy = ConfigObject_load (fs s) oldConfigFile in
                upgrade_versioned e settingsPath
                  (s\<lparr>config := legacy,
                     cmdlineSettingsPath := Some (legacySettingsPath e),
                     configVersion := getValueString legacy kVersion\<rparr>))
             else first_run e s)
      else upgrade_versioned e settingsPath s)"

text \<open>The store as \<^verbatim>\<open>versionUpgrade\<close> finds it at line 316.\<close>

definition stored :: "environment \<Rightarrow> string \<Rightarrow> filesystem \<Rightarrow> ConfigObject" where
  "stored e settingsPath files = config (loaded_state e settingsPath files)"

section \<open>Notions for the properties\<close>

text \<open>The calls of \<^verbatim>\<open>config->set\<close> among the calls of a run, in order.\<close>

fun config_writes :: "event list \<Rightarrow> (ConfigKey \<times> string) list" where
  "config_writes [] = []"
| "config_writes (ConfigSet k v # es) = (k, v) # config_writes es"
| "config_writes (ev # es) = config_writes es"

text \<open>The values that the run gave to the version marker, in order.\<close>

definition version_writes :: "event list \<Rightarrow> string list" where
  "version_writes es = map snd (filter (\<lambda>(k, v). k = kVersion) (config_writes es))"

text \<open>The keys that a run wrote.\<close>

definition written_keys :: "event list \<Rightarrow> ConfigKey set" where
  "written_keys es = fst ` set (config_writes es)"

text \<open>The keys that the early steps write.\<close>

definition early_keys :: "environment \<Rightarrow> ConfigKey set" where
  "early_keys e = {kVersion, kReanalyzeWhenSettingsChange e, kInitialReplayGainBoost}"

text \<open>
  The state in which the ladder starts for a store that has a version: the store as
  loaded, with the vsync mode rewritten (lines 316-374).
\<close>

definition ladder_start :: "environment \<Rightarrow> string \<Rightarrow> filesystem \<Rightarrow> upgrade_state" where
  "ladder_start e settingsPath files =
     config_set kVSync
       (QString_number (upgradeDeprecatedVSyncModes (decls e)
          (getValue (stored e settingsPath files) kVSync 0)))
       (loaded_state e settingsPath files)"



text \<open>A call of \<^verbatim>\<open>QFile::copy\<close> that returned false.\<close>

fun copy_failed :: "event \<Rightarrow> bool" where
  "copy_failed (FileCopy src dest ok) = (\<not> ok)"
| "copy_failed ev = False"

text \<open>The running version is at least the version that line 619 calls clean.\<close>

definition current_version :: "environment \<Rightarrow> bool" where
  "current_version e \<longleftrightarrow>
     version_greater_eq (QVersionNumber_fromString (version e)) [2, 6, 0]"

text \<open>
  The three collaborator results on which line 543 sets \<^verbatim>\<open>successful\<close>, for the
  directory that the store names.
\<close>

definition collaborators_succeed :: "environment \<Rightarrow> ConfigObject \<Rightarrow> bool" where
  "collaborators_succeed e c \<longleftrightarrow>
     isPooling e \<and> initDatabaseSchema e \<and>
     addDirectory e (getValueString c (kLegacyDirectoryConfigKey e)) = AddResult_Ok"

text \<open>
  The places where \<^verbatim>\<open>versionUpgrade\<close> looks for a settings file of an older
  release: the home directory (line 185) and, on macOS and Windows, the former settings
  directory (lines 326 and 343).
\<close>

definition probed_legacy_locations :: "environment \<Rightarrow> string list" where
  "probed_legacy_locations e =
     pre170ConfigPath e # (case legacyConfigPath e of None \<Rightarrow> [] | Some path \<Rightarrow> [path])"

text \<open>The values of the modes are values of \<^verbatim>\<open>int\<close>.\<close>

definition vsync_modes_are_ints :: "declarations \<Rightarrow> bool" where
  "vsync_modes_are_ints d \<longleftrightarrow>
     list_all (\<lambda>mode. INT_MIN \<le> mode \<and> mode \<le> INT_MAX) (vsync_case_labels d)"

section \<open>Sample inputs\<close>

text \<open>
  A Linux build of release 2.6.0 with the sample declarations, a user who answers yes
  to both prompts, collaborators that succeed and a system that permits every file
  operation; and a store that release 1.11.0 left.
\<close>

definition sample_environment :: environment where
  "sample_environment =
     \<lparr> decls = sample_declarations, platform = Other, version = ''2.6.0'',
       MIXXX_SETTINGS_FILE = ''mixxx.cfg'', homePath = ''/home/dj'',
       getSettingsPathSet = False, askReanalyzeBeats = True, askReScanLibrary = True,
       isPooling = True, initDatabaseSchema = True, addDirectory = (\<lambda>path. AddResult_Ok),
       copy_permitted = (\<lambda>src dest. True), remove_permitted = (\<lambda>path. True),
       rename_permitted = (\<lambda>oldName newName. True),
       kLegacyDirectoryConfigKey = (''[Playlist]'', ''Directory''),
       kReanalyzeWhenSettingsChange = (''[BPM]'', ''ReanalyzeWhenSettingsChange''),
       legacyUserMappingsPath = (\<lambda>c. ''/home/dj/.mixxx/midi''),
       userMappingsPath = (\<lambda>c. ''/home/dj/.mixxx/controllers'') \<rparr>"

definition sample_settings_path :: string where
  "sample_settings_path = ''/home/dj/.mixxx''"

definition store_1_11 :: filesystem where
  "store_1_11 =
     [(''/home/dj/.mixxx/mixxx.cfg'',
       [kVersion \<mapsto> ''1.11.0'', kInitialReplayGainBoost \<mapsto> ''3''])]"

text \<open>The same build on Windows.\<close>

definition windows_environment :: environment where
  "windows_environment = sample_environment\<lparr>platform := Windows, homePath := ''C:/Users/dj''\<rparr>"

text \<open>An environment whose schema initialization fails.\<close>

definition failing_environment :: environment where
  "failing_environment = sample_environment\<lparr>initDatabaseSchema := False\<rparr>"

text \<open>
  An environment in which the system refuses every copy, with a store at version
  1.10.0 and one old mapping file; and a macOS environment of the same kind with the
  store of release 1.8.0 in its former directory.
\<close>

definition no_copy_environment :: environment where
  "no_copy_environment = sample_environment\<lparr>copy_permitted := (\<lambda>src dest. False)\<rparr>"

definition store_1_10 :: filesystem where
  "store_1_10 =
     [(''/home/dj/.mixxx/mixxx.cfg'', [kVersion \<mapsto> ''1.10.0'']),
      (''/home/dj/.mixxx/midi/x.xml'', Map.empty)]"

definition apple_environment :: environment where
  "apple_environment =
     sample_environment\<lparr>platform := Apple, homePath := ''/Users/dj'',
       copy_permitted := (\<lambda>src dest. False),
       legacyUserMappingsPath := (\<lambda>c. ''/Users/dj/Library/Application Support/Mixxx/midi''),
       userMappingsPath := (\<lambda>c. ''/Users/dj/Library/Application Support/Mixxx/controllers'')\<rparr>"

definition apple_settings_path :: string where
  "apple_settings_path = ''/Users/dj/Library/Application Support/Mixxx/''"

definition store_1_8 :: filesystem where
  "store_1_8 =
     [(''/Users/dj/.mixxx/mixxx.cfg'', [kVersion \<mapsto> ''1.8.0'']),
      (''/Users/dj/.mixxx/midi/x.xml'', Map.empty)]"

text \<open>Builds of the pre-releases of 2.6.0, and stores that they left.\<close>

definition beta_environment :: environment where
  "beta_environment = sample_environment\<lparr>version := ''2.6.0-beta''\<rparr>"

definition alpha_environment :: environment where
  "alpha_environment = sample_environment\<lparr>version := ''2.6.0-alpha''\<rparr>"

definition store_2_6_0_beta :: filesystem where
  "store_2_6_0_beta = [(''/home/dj/.mixxx/mixxx.cfg'', [kVersion \<mapsto> ''2.6.0-beta''])]"

definition store_2_6_0_alpha :: filesystem where
  "store_2_6_0_alpha = [(''/home/dj/.mixxx/mixxx.cfg'', [kVersion \<mapsto> ''2.6.0-alpha''])]"


section \<open>Properties\<close>

subsection \<open>Numbers and versions\<close>

lemma digit_char_simps:
  "digit_char 0 = CHR ''0''" "digit_char (Suc 0) = CHR ''1''" "digit_char 2 = CHR ''2''"
  "digit_char 3 = CHR ''3''" "digit_char 4 = CHR ''4''" "digit_char 5 = CHR ''5''"
  "digit_char 6 = CHR ''6''" "digit_char 7 = CHR ''7''" "digit_char 8 = CHR ''8''"
  "digit_char 9 = CHR ''9''"
  by (simp_all add: digit_char_def char_of_def bit_0)

lemma digit_char_is_digit: "n < 10 \<Longrightarrow> is_digit (digit_char n)"
  by (simp add: is_digit_def digit_char_def)

lemma digit_val_digit_char: "n < 10 \<Longrightarrow> digit_val (digit_char n) = n"
  by (simp add: digit_val_def digit_char_def)

lemma nat_of_digits_snoc: "nat_of_digits (ds @ [c]) = 10 * nat_of_digits ds + digit_val c"
  by (simp add: nat_of_digits_def)

lemma nat_of_digits_of_nat: "nat_of_digits (digits_of_nat n) = n"
proof (induction n rule: digits_of_nat.induct)
  case (1 n)
  show ?case
  proof (cases "n < 10")
    case True
    then show ?thesis
      by (subst digits_of_nat.simps) (simp add: nat_of_digits_def digit_val_digit_char)
  next
    case False
    with 1 have "nat_of_digits (digits_of_nat (n div 10)) = n div 10"
      by simp
    with False show ?thesis
      by (subst digits_of_nat.simps) (simp add: nat_of_digits_snoc digit_val_digit_char)
  qed
qed

lemma digits_of_nat_all_digits: "list_all is_digit (digits_of_nat n)"
proof (induction n rule: digits_of_nat.induct)
  case (1 n)
  show ?case
  proof (cases "n < 10")
    case True
    then show ?thesis
      by (subst digits_of_nat.simps) (simp add: digit_char_is_digit)
  next
    case False
    with 1 have "list_all is_digit (digits_of_nat (n div 10))"
      by simp
    with False show ?thesis
      by (subst digits_of_nat.simps) (simp add: digit_char_is_digit)
  qed
qed

lemma digits_of_nat_not_Nil: "digits_of_nat n \<noteq> []"
  by (subst digits_of_nat.simps) simp

lemma is_digit_not_sign: "is_digit c \<Longrightarrow> c \<noteq> CHR ''-'' \<and> c \<noteq> CHR ''+''"
  by (auto simp: is_digit_def)

text \<open>A stored number is read back as it was written.\<close>

lemma QString_toInt_number:
  assumes "INT_MIN \<le> n" and "n \<le> INT_MAX"
  shows "QString_toInt (QString_number n) = Some n"
proof (cases "n < 0")
  case True
  with assms show ?thesis
    by (simp add: QString_toInt_def QString_number_def nat_of_digits_of_nat
        digits_of_nat_all_digits digits_of_nat_not_Nil)
next
  case False
  obtain c r where cr: "digits_of_nat (nat n) = c # r"
    using digits_of_nat_not_Nil [of "nat n"] by (cases "digits_of_nat (nat n)") auto
  have "list_all is_digit (c # r)"
    using digits_of_nat_all_digits [of "nat n"] by (simp add: cr)
  then have c: "c \<noteq> CHR ''-''" "c \<noteq> CHR ''+''" and all: "list_all is_digit (c # r)"
    using is_digit_not_sign [of c] by simp_all
  have val: "nat_of_digits (c # r) = nat n"
    using nat_of_digits_of_nat [of "nat n"] by (simp add: cr)
  from False assms c all val show ?thesis
    by (simp add: QString_toInt_def QString_number_def cr)
qed

lemma int_minus_in_range:
  assumes "INT_MIN \<le> a - b" and "a - b \<le> INT_MAX"
  shows "int_minus a b = a - b"
  unfolding int_minus_def using assms
  by (intro signed_take_bit_int_eq_self) (simp_all add: INT_MIN_def INT_MAX_def)

lemma fromString_1:
  "QVersionNumber_fromString (CHR ''1'' # CHR ''.'' # r) = 1 # QVersionNumber_fromString r"
  by (subst QVersionNumber_fromString.simps)
     (simp add: Let_def is_digit_def nat_of_digits_def digit_val_def INT_MAX_def)

lemma fromString_2_6_0: "QVersionNumber_fromString ''2.6.0'' = [2, 6, 0]"
  by (simp add: QVersionNumber_fromString.simps Let_def is_digit_def nat_of_digits_def
      digit_val_def INT_MAX_def)

subsection \<open>The remappers\<close>

lemma well_formed_sample_declarations: "well_formed_declarations sample_declarations"
  by (simp add: well_formed_declarations_def legacy_case_labels_def vsync_case_labels_def
      sample_declarations_def)

lemma upgradeDeprecatedVSyncModes_cases:
  assumes "distinct (vsync_case_labels d)" and "0 \<le> ST_COUNT d"
  shows "upgradeDeprecatedVSyncModes d v =
     (if v = ST_FREE d then ST_FREE d else if v = ST_TIMER d then ST_TIMER d
      else if v = ST_PLL d then ST_PLL d else ST_DEFAULT d)"
proof -
  have guard: "v \<ge> 0 \<or> v \<le> ST_COUNT d"
    using assms(2) by linarith
  from assms(1) have
    "ST_FREE d \<notin> {ST_DEFAULT d, ST_MESA_VBLANK_MODE_1_DEPRECATED d,
        ST_SGI_VIDEO_SYNC_DEPRECATED d, ST_OML_SYNC_CONTROL_DEPRECATED d}"
    "ST_TIMER d \<notin> {ST_DEFAULT d, ST_MESA_VBLANK_MODE_1_DEPRECATED d,
        ST_SGI_VIDEO_SYNC_DEPRECATED d, ST_OML_SYNC_CONTROL_DEPRECATED d, ST_FREE d}"
    "ST_PLL d \<notin> {ST_DEFAULT d, ST_MESA_VBLANK_MODE_1_DEPRECATED d,
        ST_SGI_VIDEO_SYNC_DEPRECATED d, ST_OML_SYNC_CONTROL_DEPRECATED d, ST_FREE d, ST_TIMER d}"
    by (auto simp: vsync_case_labels_def)
  then show ?thesis
    unfolding upgradeDeprecatedVSyncModes_def using guard by auto
qed

lemma upgradeDeprecatedVSyncModes_idem:
  assumes "distinct (vsync_case_labels d)" and "0 \<le> ST_COUNT d"
  shows "upgradeDeprecatedVSyncModes d (upgradeDeprecatedVSyncModes d v) =
         upgradeDeprecatedVSyncModes d v"
  by (simp add: upgradeDeprecatedVSyncModes_cases [OF assms])

text \<open>
  C3, as the code has it. With a backend other than AllShader, the legacy codes 18, 23
  and 12 give the AllShader backend and the type that \<^verbatim>\<open>defaultType()\<close> returns,
  whichever it is: the default branch is reached by fallthrough and assigns no other
  type, so the result is Stacked only if the default type is Stacked, and it is the RGB
  code 12, and then not Stacked, when the default type is that code. The options are
  exactly SplitStereoSignal for 18 and exactly HighDetail for 23 and 12, whatever the
  raw options were.
\<close>

theorem upgradeToAllShaders_rgb_family:
  assumes "distinct (legacy_case_labels d)"
    and "rawBackend \<noteq> Backend_AllShader d"
  shows "upgradeToAllShaders d 18 rawBackend rawOptions =
           (defaultType d, Backend_AllShader d, Option_SplitStereoSignal d)
       \<and> upgradeToAllShaders d 23 rawBackend rawOptions =
           (defaultType d, Backend_AllShader d, Option_HighDetail d)
       \<and> upgradeToAllShaders d 12 rawBackend rawOptions =
           (defaultType d, Backend_AllShader d, Option_HighDetail d)
       \<and> (rawType \<in> set rgb_codes \<longrightarrow>
            (fst (upgradeToAllShaders d rawType rawBackend rawOptions) = WWT_Stacked d \<longleftrightarrow>
               defaultType d = WWT_Stacked d)
          \<and> (defaultType d = 12 \<longrightarrow>
               fst (upgradeToAllShaders d rawType rawBackend rawOptions) = 12
             \<and> fst (upgradeToAllShaders d rawType rawBackend rawOptions) \<noteq> WWT_Stacked d))"
proof -
  from assms(1) have labels:
    "WWT_Empty d \<notin> {18, 23, 12}" "WWT_VSyncTest d \<notin> {18, 23, 12}"
    "WWT_Simple d \<notin> {18, 23, 12}" "WWT_Filtered d \<notin> {18, 23, 12}"
    "WWT_HSV d \<notin> {18, 23, 12}" "WWT_Stacked d \<notin> {18, 23, 12}"
    by (auto simp: legacy_case_labels_def)
  from assms(2) have backend: "Backend_AllShader d \<noteq> rawBackend"
    by simp
  have triples: "upgradeToAllShaders d 18 rawBackend rawOptions =
           (defaultType d, Backend_AllShader d, Option_SplitStereoSignal d)"
    "upgradeToAllShaders d 23 rawBackend rawOptions =
           (defaultType d, Backend_AllShader d, Option_HighDetail d)"
    "upgradeToAllShaders d 12 rawBackend rawOptions =
           (defaultType d, Backend_AllShader d, Option_HighDetail d)"
    using labels backend by (simp_all add: upgradeToAllShaders_def Let_def)
  have type: "fst (upgradeToAllShaders d rawType rawBackend rawOptions) = defaultType d"
    if "rawType \<in> set rgb_codes"
    using that triples by (auto simp: rgb_codes_def)
  have "WWT_Stacked d \<noteq> 12"
    using labels(6) by simp
  then show ?thesis
    using triples type by auto
qed

theorem upgradeToAllShaders_rgb_family_witness:
  "distinct (legacy_case_labels sample_declarations)
   \<and> (1::int) \<noteq> Backend_AllShader sample_declarations
   \<and> (12::int) \<in> set rgb_codes
   \<and> defaultType sample_declarations = 12
   \<and> upgradeToAllShaders sample_declarations 18 1 65535 = (12, 3, 1)
   \<and> upgradeToAllShaders sample_declarations 23 1 65535 = (12, 3, 2)
   \<and> upgradeToAllShaders sample_declarations 12 1 65535 = (12, 3, 2)
   \<and> fst (upgradeToAllShaders sample_declarations 12 1 65535) \<noteq> WWT_Stacked sample_declarations"
proof -
  have d: "distinct (legacy_case_labels sample_declarations)"
    by (simp add: legacy_case_labels_def sample_declarations_def)
  have b: "(1::int) \<noteq> Backend_AllShader sample_declarations"
    by (simp add: sample_declarations_def)
  have c: "(12::int) \<in> set rgb_codes"
    by (simp add: rgb_codes_def)
  have t: "defaultType sample_declarations = 12"
    by (simp add: sample_declarations_def)
  from upgradeToAllShaders_rgb_family [OF d b, where rawType = 12 and rawOptions = 65535] d b c t
  show ?thesis
    by (simp add: sample_declarations_def)
qed

text \<open>
  C3 as stated fails on "not an RGB type": the function returns what
  \<^verbatim>\<open>defaultType()\<close> returns, and with the RGB code 12 as the default type the removed
  code GLSLRGBWaveform (12), read with the legacy backend, comes back as the type 12,
  one of the codes of the RGB group.
\<close>

theorem upgradeToAllShaders_rgb_family_counterexample:
  "Backend_None sample_declarations \<noteq> Backend_AllShader sample_declarations
   \<and> upgradeToAllShaders sample_declarations 12 (Backend_None sample_declarations) 0 =
       (12, Backend_AllShader sample_declarations, Option_HighDetail sample_declarations)
   \<and> fst (upgradeToAllShaders sample_declarations 12 (Backend_None sample_declarations) 0)
       \<in> set rgb_codes"
  by (simp add: upgradeToAllShaders_def sample_declarations_def rgb_codes_def)

text \<open>
  C4, as the code has it. With the AllShader backend the backend is kept, the options
  are the raw options masked with AllOptionsCombined, and the type is the raw type when
  it is one of the current codes Simple, Filtered, HSV, Stacked, Empty, and the
  library's default type otherwise. The raw type 3 is the removed QtSimpleWaveform code:
  it is a case label of the second \<^verbatim>\<open>switch\<close> next to \<^verbatim>\<open>WWT::Simple\<close>, hence not the
  current Simple code, and with the AllShader backend it gives the default type.
\<close>

theorem upgradeToAllShaders_allshader:
  assumes "distinct (legacy_case_labels d)"
  shows "upgradeToAllShaders d rawType (Backend_AllShader d) rawOptions =
           (if rawType \<in> {WWT_Simple d, WWT_Filtered d, WWT_HSV d, WWT_Stacked d, WWT_Empty d}
            then rawType else defaultType d,
            Backend_AllShader d,
            rawOptions AND Option_AllOptionsCombined d)
       \<and> upgradeToAllShaders d 3 (Backend_AllShader d) 65535 =
           (defaultType d, Backend_AllShader d, 65535 AND Option_AllOptionsCombined d)"
proof -
  from assms have "3 \<notin> {WWT_Simple d, WWT_Filtered d, WWT_HSV d, WWT_Stacked d, WWT_Empty d}"
    by (auto simp: legacy_case_labels_def)
  then show ?thesis
    by (auto simp: upgradeToAllShaders_def Let_def)
qed

theorem upgradeToAllShaders_allshader_witness:
  "distinct (legacy_case_labels sample_declarations)
   \<and> upgradeToAllShaders sample_declarations 5 3 65535 = (5, 3, 3)
   \<and> upgradeToAllShaders sample_declarations 3 3 65535 = (12, 3, 3)"
proof -
  have d: "distinct (legacy_case_labels sample_declarations)"
    by (simp add: legacy_case_labels_def sample_declarations_def)
  have m: "(65535::int) AND 3 = 3"
    by simp
  from upgradeToAllShaders_allshader [OF d, of 5 65535] d m show ?thesis
    by (simp add: sample_declarations_def)
qed

text \<open>
  C4 as stated fails on its example: the raw type 3 with the AllShader backend and the
  raw options 0xFFFF does not give the type Simple.
\<close>

theorem upgradeToAllShaders_allshader_counterexample:
  "fst (upgradeToAllShaders sample_declarations 3
          (Backend_AllShader sample_declarations) 65535)
     \<noteq> WWT_Simple sample_declarations"
  by (simp add: upgradeToAllShaders_def sample_declarations_def)

text \<open>
  C5. \<^verbatim>\<open>upgradeDeprecatedVSyncModes\<close> returns a mode for every integer: the three
  deprecated codes, the count sentinel and every value that is no enumerator give
  Default; Free, Timer, PLL and Default give themselves.
\<close>

theorem upgradeDeprecatedVSyncModes_total:
  assumes "distinct (vsync_case_labels d)" and "0 \<le> ST_COUNT d"
  shows "upgradeDeprecatedVSyncModes d (ST_MESA_VBLANK_MODE_1_DEPRECATED d) = ST_DEFAULT d
       \<and> upgradeDeprecatedVSyncModes d (ST_SGI_VIDEO_SYNC_DEPRECATED d) = ST_DEFAULT d
       \<and> upgradeDeprecatedVSyncModes d (ST_OML_SYNC_CONTROL_DEPRECATED d) = ST_DEFAULT d
       \<and> upgradeDeprecatedVSyncModes d (ST_COUNT d) = ST_DEFAULT d
       \<and> upgradeDeprecatedVSyncModes d (ST_FREE d) = ST_FREE d
       \<and> upgradeDeprecatedVSyncModes d (ST_TIMER d) = ST_TIMER d
       \<and> upgradeDeprecatedVSyncModes d (ST_PLL d) = ST_PLL d
       \<and> upgradeDeprecatedVSyncModes d (ST_DEFAULT d) = ST_DEFAULT d
       \<and> (v \<notin> set (vsync_case_labels d) \<longrightarrow> upgradeDeprecatedVSyncModes d v = ST_DEFAULT d)
       \<and> upgradeDeprecatedVSyncModes d v \<in> {ST_DEFAULT d, ST_FREE d, ST_TIMER d, ST_PLL d}"
proof -
  from assms(1) have ne:
    "ST_MESA_VBLANK_MODE_1_DEPRECATED d \<notin> {ST_FREE d, ST_TIMER d, ST_PLL d}"
    "ST_SGI_VIDEO_SYNC_DEPRECATED d \<notin> {ST_FREE d, ST_TIMER d, ST_PLL d}"
    "ST_OML_SYNC_CONTROL_DEPRECATED d \<notin> {ST_FREE d, ST_TIMER d, ST_PLL d}"
    "ST_COUNT d \<notin> {ST_FREE d, ST_TIMER d, ST_PLL d}"
    "ST_DEFAULT d \<notin> {ST_FREE d, ST_TIMER d, ST_PLL d}"
    by (auto simp: vsync_case_labels_def)
  have out: "v \<notin> set (vsync_case_labels d) \<Longrightarrow> v \<notin> {ST_FREE d, ST_TIMER d, ST_PLL d}"
    by (simp add: vsync_case_labels_def)
  show ?thesis
    using ne out by (simp add: upgradeDeprecatedVSyncModes_cases [OF assms])
qed

theorem upgradeDeprecatedVSyncModes_total_witness:
  "distinct (vsync_case_labels sample_declarations)
   \<and> 0 \<le> ST_COUNT sample_declarations
   \<and> (100::int) \<notin> set (vsync_case_labels sample_declarations)
   \<and> upgradeDeprecatedVSyncModes sample_declarations 100 = 0
   \<and> upgradeDeprecatedVSyncModes sample_declarations (- 1) = 0
   \<and> upgradeDeprecatedVSyncModes sample_declarations 2 = 0
   \<and> upgradeDeprecatedVSyncModes sample_declarations 4 = 4"
proof -
  have d: "distinct (vsync_case_labels sample_declarations)"
    by (simp add: vsync_case_labels_def sample_declarations_def)
  have c: "0 \<le> ST_COUNT sample_declarations"
    by (simp add: sample_declarations_def)
  have n: "(100::int) \<notin> set (vsync_case_labels sample_declarations)"
    by (simp add: vsync_case_labels_def sample_declarations_def)
  have neg: "upgradeDeprecatedVSyncModes sample_declarations (- 1) = 0"
    by (simp add: upgradeDeprecatedVSyncModes_def sample_declarations_def)
  from upgradeDeprecatedVSyncModes_total [OF d c, of 100] d c n neg show ?thesis
    by (simp add: sample_declarations_def)
qed

subsection \<open>The store, the calls and the steps\<close>

text \<open>The keys that the function names are pairwise different.\<close>

lemma key_neq [simp]:
  "kVersion \<noteq> kVSync" "kVersion \<noteq> kInitialReplayGainBoost"
  "kVersion \<noteq> kFrameRate" "kVersion \<noteq> kWaveformType"
  "kVersion \<noteq> kUseHardwareAcceleration" "kVersion \<noteq> kWaveformOptions"
  "kVSync \<noteq> kVersion" "kVSync \<noteq> kInitialReplayGainBoost"
  "kVSync \<noteq> kFrameRate" "kVSync \<noteq> kWaveformType"
  "kVSync \<noteq> kUseHardwareAcceleration" "kVSync \<noteq> kWaveformOptions"
  "kInitialReplayGainBoost \<noteq> kVersion" "kInitialReplayGainBoost \<noteq> kVSync"
  "kInitialReplayGainBoost \<noteq> kFrameRate"
  "kInitialReplayGainBoost \<noteq> kWaveformType"
  "kInitialReplayGainBoost \<noteq> kUseHardwareAcceleration"
  "kInitialReplayGainBoost \<noteq> kWaveformOptions"
  "kFrameRate \<noteq> kVersion" "kFrameRate \<noteq> kVSync"
  "kFrameRate \<noteq> kInitialReplayGainBoost" "kFrameRate \<noteq> kWaveformType"
  "kFrameRate \<noteq> kUseHardwareAcceleration" "kFrameRate \<noteq> kWaveformOptions"
  "kWaveformType \<noteq> kVersion" "kWaveformType \<noteq> kVSync"
  "kWaveformType \<noteq> kInitialReplayGainBoost" "kWaveformType \<noteq> kFrameRate"
  "kWaveformType \<noteq> kUseHardwareAcceleration" "kWaveformType \<noteq> kWaveformOptions"
  "kUseHardwareAcceleration \<noteq> kVersion" "kUseHardwareAcceleration \<noteq> kVSync"
  "kUseHardwareAcceleration \<noteq> kInitialReplayGainBoost"
  "kUseHardwareAcceleration \<noteq> kFrameRate"
  "kUseHardwareAcceleration \<noteq> kWaveformType"
  "kUseHardwareAcceleration \<noteq> kWaveformOptions"
  "kWaveformOptions \<noteq> kVersion" "kWaveformOptions \<noteq> kVSync"
  "kWaveformOptions \<noteq> kInitialReplayGainBoost" "kWaveformOptions \<noteq> kFrameRate"
  "kWaveformOptions \<noteq> kWaveformType"
  "kWaveformOptions \<noteq> kUseHardwareAcceleration"
  by (simp_all add: kVersion_def kVSync_def kInitialReplayGainBoost_def kFrameRate_def
      kWaveformType_def kUseHardwareAcceleration_def kWaveformOptions_def)

lemma config_writes_append [simp]:
  "config_writes (xs @ ys) = config_writes xs @ config_writes ys"
  by (induction xs rule: config_writes.induct) simp_all

lemma written_keys_append [simp]:
  "written_keys (xs @ ys) = written_keys xs \<union> written_keys ys"
  by (auto simp: written_keys_def)

lemma written_keys_simps [simp]:
  "written_keys [] = {}"
  "written_keys (ConfigSet k v # es) = insert k (written_keys es)"
  "written_keys (FileCopy a b ok # es) = written_keys es"
  "written_keys (FileRemove a ok # es) = written_keys es"
  "written_keys (DirRename a b ok # es) = written_keys es"
  "written_keys (AskReanalyzeBeats ok # es) = written_keys es"
  "written_keys (AskReScanLibrary ok # es) = written_keys es"
  "written_keys (InitDatabaseSchema ok # es) = written_keys es"
  "written_keys (AddDirectory a res # es) = written_keys es"
  by (simp_all add: written_keys_def)

lemma version_writes_append [simp]:
  "version_writes (xs @ ys) = version_writes xs @ version_writes ys"
  by (simp add: version_writes_def)

lemma version_writes_simps [simp]:
  "version_writes [] = []"
  "version_writes (ConfigSet k v # es) =
     (if k = kVersion then v # version_writes es else version_writes es)"
  "version_writes (FileCopy a b ok # es) = version_writes es"
  "version_writes (FileRemove a ok # es) = version_writes es"
  "version_writes (DirRename a b ok # es) = version_writes es"
  "version_writes (AskReanalyzeBeats ok # es) = version_writes es"
  "version_writes (AskReScanLibrary ok # es) = version_writes es"
  "version_writes (InitDatabaseSchema ok # es) = version_writes es"
  "version_writes (AddDirectory a res # es) = version_writes es"
  by (simp_all add: version_writes_def)

lemma config_set_fields [simp]:
  "m_values (config (config_set k v s)) = (m_values (config s))(k \<mapsto> v)"
  "m_filename (config (config_set k v s)) = m_filename (config s)"
  "trace (config_set k v s) = trace s @ [ConfigSet k v]"
  "fs (config_set k v s) = fs s"
  "configVersion (config_set k v s) = configVersion s"
  "m_bFirstRun (config_set k v s) = m_bFirstRun s"
  "m_bRescanLibrary (config_set k v s) = m_bRescanLibrary s"
  "cmdlineSettingsPath (config_set k v s) = cmdlineSettingsPath s"
  by (simp_all add: config_set_def)

lemma getValue_config_set:
  "getValue (config (config_set k v s)) k' dflt =
     (if k' = k then (case QString_toInt v of None \<Rightarrow> dflt | Some n \<Rightarrow> n)
      else getValue (config s) k' dflt)"
  by (simp add: getValue_def)

lemma getValueString_config_set:
  "getValueString (config (config_set k v s)) k' =
     (if k' = k then v else getValueString (config s) k')"
  by (simp add: getValueString_def)

text \<open>The prefixes that choose the steps exclude one another.\<close>

lemma startsWith_1_11:
  assumes "startsWith v ''1.11''"
  shows "\<not> startsWith v ''1.7''" "\<not> startsWith v ''1.8.0~beta1''" "\<not> startsWith v ''1.8.0~beta2''"
    "\<not> startsWith v ''1.8''" "\<not> startsWith v ''1.9.0beta1''" "\<not> startsWith v ''1.9''"
    "\<not> startsWith v ''1.10''" "v \<noteq> []"
  using assms by (auto simp: startsWith_def prefix_def)

lemma version_less_1:
  assumes "prefix ''1.'' v"
  shows "version_less (QVersionNumber_fromString v) [2, 4, 0]"
    and "version_less (QVersionNumber_fromString v) [2, 6, 0]"
proof -
  from assms obtain r where "v = CHR ''1'' # CHR ''.'' # r"
    by (auto simp: prefix_def)
  then show "version_less (QVersionNumber_fromString v) [2, 4, 0]"
    and "version_less (QVersionNumber_fromString v) [2, 6, 0]"
    by (simp_all add: fromString_1 version_less_def)
qed

lemma current_version_not_1:
  assumes "current_version e"
  shows "\<not> prefix ''1.'' (version e)"
  using assms version_less_1(2) [of "version e"]
  by (auto simp: current_version_def version_less_def version_greater_eq_def)

lemma ladder_from_1_11:
  assumes "startsWith (configVersion s) ''1.11''"
  shows "ladder e settingsPath s = step_clean e (step_waveform e (step_framerate (step_1_11 e s)))"
  using startsWith_1_11 [OF assms]
  by (simp add: ladder_def early_steps_def step_1_7_def step_1_8_beta_def step_1_8_def
      step_1_9_def)


text \<open>The tail of the ladder on a version of the 1.x series.\<close>

lemma step_framerate_1:
  assumes "prefix ''1.'' (configVersion s)"
  shows "step_framerate s = config_set kFrameRate (QString_number 60) s"
  using version_less_1(1) [OF assms] by (simp add: step_framerate_def)

lemma waveform_gate_1:
  assumes "prefix ''1.'' v"
  shows "waveform_gate e v"
  using version_less_1(2) [OF assms] by (simp add: waveform_gate_def)

lemma waveform_body_fields [simp]:
  "configVersion (waveform_body e s) = ''2.6.0''"
  "fs (waveform_body e s) = fs s"
  "m_bFirstRun (waveform_body e s) = m_bFirstRun s"
  "m_bRescanLibrary (waveform_body e s) = m_bRescanLibrary s"
  "cmdlineSettingsPath (waveform_body e s) = cmdlineSettingsPath s"
  "m_filename (config (waveform_body e s)) = m_filename (config s)"
  "version_writes (trace (waveform_body e s)) = version_writes (trace s) @ [''2.6.0'']"
  "written_keys (trace (waveform_body e s)) =
     written_keys (trace s) \<union> {kWaveformType, kUseHardwareAcceleration, kWaveformOptions, kVersion}"
  by (simp_all add: waveform_body_def Let_def split_def)

lemma waveform_body_values:
  "k \<notin> {kWaveformType, kUseHardwareAcceleration, kWaveformOptions, kVersion} \<Longrightarrow>
   m_values (config (waveform_body e s)) k = m_values (config s) k"
  by (simp add: waveform_body_def Let_def split_def)

lemma step_clean_2_6_0:
  assumes "configVersion s = ''2.6.0''"
  shows "step_clean e s = config_set kVersion (version e) (s\<lparr>configVersion := version e\<rparr>)"
  using assms by (simp add: step_clean_def fromString_2_6_0 version_greater_eq_def)

lemma tail_1:
  assumes "prefix ''1.'' (configVersion s)"
  shows "step_clean e (step_waveform e (step_framerate s)) =
         config_set kVersion (version e)
           ((waveform_body e (config_set kFrameRate (QString_number 60) s))
              \<lparr>configVersion := version e\<rparr>)"
  using assms
  by (simp add: step_framerate_1 step_waveform_def waveform_gate_1 step_clean_2_6_0)

lemma QFile_copy_fields [simp]:
  "version_writes (trace (snd (QFile_copy e src dest io))) = version_writes (trace io)"
  "config_writes (trace (snd (QFile_copy e src dest io))) = config_writes (trace io)"
  by (simp_all add: QFile_copy_def split: option.split)

lemma QFile_remove_fields [simp]:
  "version_writes (trace (QFile_remove e p io)) = version_writes (trace io)"
  "config_writes (trace (QFile_remove e p io)) = config_writes (trace io)"
  by (simp_all add: QFile_remove_def)

lemma copy_then_remove_writes [simp]:
  "config_writes (trace (copy_then_remove e a b io)) = config_writes (trace io)"
proof -
  have "config_writes (trace (snd (QFile_copy e a b io))) = config_writes (trace io)"
    by simp
  then show ?thesis
    by (cases "QFile_copy e a b io") (auto simp: copy_then_remove_def split: bool.split)
qed

lemma move_legacy_file_writes [simp]:
  "config_writes (trace (move_legacy_file e a b io)) = config_writes (trace io)"
  by (simp add: move_legacy_file_def)

lemma relocate_pre170_writes [simp]:
  "config_writes (trace (relocate_pre170 e sp io)) = config_writes (trace io)"
  by (simp add: relocate_pre170_def Let_def)

lemma loaded_state_fields [simp]:
  "config (loaded_state e sp files) = stored e sp files"
  "configVersion (loaded_state e sp files) = getValueString (stored e sp files) kVersion"
  "config_writes (trace (loaded_state e sp files)) = []"
  "version_writes (trace (loaded_state e sp files)) = []"
  "written_keys (trace (loaded_state e sp files)) = {}"
  "m_bFirstRun (loaded_state e sp files) = False"
  "m_bRescanLibrary (loaded_state e sp files) = False"
  "cmdlineSettingsPath (loaded_state e sp files) = None"
  by (simp_all add: stored_def) (simp_all add: loaded_state_def Let_def version_writes_def written_keys_def)

lemma getValue_range:
  assumes "INT_MIN \<le> dflt" and "dflt \<le> INT_MAX"
  shows "INT_MIN \<le> getValue c k dflt \<and> getValue c k dflt \<le> INT_MAX"
  using assms
  by (auto simp: getValue_def QString_toInt_def Let_def split: option.splits if_splits prod.splits)

lemma migrate_library_directory_fields [simp]:
  "fst (migrate_library_directory e s) = collaborators_succeed e (config s)"
  "config (snd (migrate_library_directory e s)) = config s"
  "fs (snd (migrate_library_directory e s)) = fs s"
  "configVersion (snd (migrate_library_directory e s)) = configVersion s"
  "m_bFirstRun (snd (migrate_library_directory e s)) = m_bFirstRun s"
  "cmdlineSettingsPath (snd (migrate_library_directory e s)) = cmdlineSettingsPath s"
  "config_writes (trace (snd (migrate_library_directory e s))) = config_writes (trace s)"
  "version_writes (trace (snd (migrate_library_directory e s))) = version_writes (trace s)"
  "written_keys (trace (snd (migrate_library_directory e s))) = written_keys (trace s)"
  by (auto simp: migrate_library_directory_def collaborators_succeed_def Let_def)

lemma replay_gain_rescaled:
  assumes "INT_MIN + 6 \<le> getValue c kInitialReplayGainBoost 6"
  shows "math_max (- 6) (int_minus (getValue c kInitialReplayGainBoost 6) 6) =
         max (- 6) (getValue c kInitialReplayGainBoost 6 - 6)"
proof -
  have "getValue c kInitialReplayGainBoost 6 \<le> INT_MAX"
    using getValue_range [of 6 c kInitialReplayGainBoost] by (simp add: INT_MIN_def INT_MAX_def)
  with assms have "int_minus (getValue c kInitialReplayGainBoost 6) 6 =
      getValue c kInitialReplayGainBoost 6 - 6"
    by (intro int_minus_in_range) simp_all
  then show ?thesis
    by (simp add: math_max_def max_def)
qed

lemma step_1_11_fields:
  assumes "startsWith (configVersion s) ''1.11''"
  shows "configVersion (step_1_11 e s) =
           (if collaborators_succeed e (config s) then ''1.12.0'' else configVersion s)"
    and "m_values (config (step_1_11 e s)) kInitialReplayGainBoost =
           Some (QString_number (math_max (- 6) (int_minus (getValue (config s) kInitialReplayGainBoost 6) 6)))"
    and "m_values (config (step_1_11 e s)) kVersion =
           (if collaborators_succeed e (config s) then Some ''1.12.0'' else m_values (config s) kVersion)"
    and "k \<notin> {kInitialReplayGainBoost, kVersion} \<Longrightarrow>
           m_values (config (step_1_11 e s)) k = m_values (config s) k"
    and "version_writes (trace (step_1_11 e s)) =
           version_writes (trace s) @
           (if collaborators_succeed e (config s) then [''1.12.0''] else [])"
    and "m_bRescanLibrary (step_1_11 e s) = askReScanLibrary e"
    and "fs (step_1_11 e s) = fs s"
    and "m_filename (config (step_1_11 e s)) = m_filename (config s)"
  using assms by (simp_all add: step_1_11_def Let_def split_def)

lemma startsWith_1_11_prefix_1: "startsWith v ''1.11'' \<Longrightarrow> prefix ''1.'' v"
  by (auto simp: startsWith_def prefix_def)

lemma versionUpgrade_versioned:
  assumes "getValueString (stored e sp files) kVersion \<noteq> []"
  shows "versionUpgrade e sp files = upgrade_versioned e sp (loaded_state e sp files)"
  using assms by (simp add: versionUpgrade_def Let_def)

lemma upgrade_versioned_ladder:
  assumes "configVersion s \<noteq> version e"
  shows "upgrade_versioned e sp s =
         ladder e sp (config_set kVSync
           (QString_number (upgradeDeprecatedVSyncModes (decls e) (getValue (config s) kVSync 0))) s)"
  using assms by (simp add: upgrade_versioned_def Let_def)

lemma collaborators_succeed_config_set:
  "k \<noteq> kLegacyDirectoryConfigKey e \<Longrightarrow>
   collaborators_succeed e (config (config_set k v s)) = collaborators_succeed e (config s)"
  by (simp add: collaborators_succeed_def getValueString_config_set)

lemma versionUpgrade_from_1_11:
  assumes v: "startsWith (getValueString (stored e sp files) kVersion) ''1.11''"
    and cur: "current_version e"
  shows "versionUpgrade e sp files =
         config_set kVersion (version e)
           ((waveform_body e (config_set kFrameRate (QString_number 60)
              (step_1_11 e (config_set kVSync
                 (QString_number (upgradeDeprecatedVSyncModes (decls e)
                    (getValue (stored e sp files) kVSync 0)))
                 (loaded_state e sp files)))))
            \<lparr>configVersion := version e\<rparr>)"
proof -
  let ?s = "loaded_state e sp files"
  let ?s1 = "config_set kVSync (QString_number (upgradeDeprecatedVSyncModes (decls e)
                    (getValue (stored e sp files) kVSync 0))) ?s"
  have p: "prefix ''1.'' (getValueString (stored e sp files) kVersion)"
    using v by (rule startsWith_1_11_prefix_1)
  have ne: "getValueString (stored e sp files) kVersion \<noteq> []"
    using v by (rule startsWith_1_11(8))
  have nv: "configVersion ?s \<noteq> version e"
    using p current_version_not_1 [OF cur] by auto
  have v1: "startsWith (configVersion ?s1) ''1.11''"
    using v by simp
  have p2: "prefix ''1.'' (configVersion (step_1_11 e ?s1))"
    using p by (simp add: step_1_11_fields(1) [OF v1])
  have "versionUpgrade e sp files = ladder e sp ?s1"
    using upgrade_versioned_ladder [OF nv] by (simp add: versionUpgrade_versioned [OF ne])
  also have "\<dots> = step_clean e (step_waveform e (step_framerate (step_1_11 e ?s1)))"
    by (rule ladder_from_1_11 [OF v1])
  also have "\<dots> = config_set kVersion (version e)
           ((waveform_body e (config_set kFrameRate (QString_number 60) (step_1_11 e ?s1)))
            \<lparr>configVersion := version e\<rparr>)"
    by (rule tail_1 [OF p2])
  finally show ?thesis .
qed

text \<open>
  C1, as the code has it. For a store whose version starts with "1.11" (and a replay
  gain from which 6 can be subtracted within the range of \<^verbatim>\<open>int\<close>): when the pool is
  up, the schema initialization succeeds and the registration of the legacy library
  directory returns Ok, the run leaves InitialReplayGainBoost at max(-6, previous - 6)
  and gives the version marker the values "1.12.0" (1.11 step), then "2.6.0" (waveform
  step) and the running version (last step); when the collaborators do not report
  success, the marker is never given the value "1.12.0". In both cases the store that
  is returned is at the running version, which is not "1.12.0".
\<close>

theorem versionUpgrade_1_11:
  assumes v: "startsWith (getValueString (stored e sp files) kVersion) ''1.11''"
    and cur: "current_version e"
    and key: "kLegacyDirectoryConfigKey e \<noteq> kVSync"
    and range: "INT_MIN + 6 \<le> getValue (stored e sp files) kInitialReplayGainBoost 6"
  shows "(collaborators_succeed e (stored e sp files) \<longrightarrow>
            m_values (config (versionUpgrade e sp files)) kInitialReplayGainBoost =
              Some (QString_number
                (max (- 6) (getValue (stored e sp files) kInitialReplayGainBoost 6 - 6)))
          \<and> version_writes (trace (versionUpgrade e sp files)) =
              [''1.12.0'', ''2.6.0'', version e])
       \<and> (\<not> collaborators_succeed e (stored e sp files) \<longrightarrow>
            ''1.12.0'' \<notin> set (version_writes (trace (versionUpgrade e sp files))))
       \<and> getValueString (config (versionUpgrade e sp files)) kVersion = version e
       \<and> version e \<noteq> ''1.12.0''"
proof -
  let ?s1 = "config_set kVSync (QString_number (upgradeDeprecatedVSyncModes (decls e)
                    (getValue (stored e sp files) kVSync 0))) (loaded_state e sp files)"
  have v1: "startsWith (configVersion ?s1) ''1.11''"
    using v by simp
  have succ: "collaborators_succeed e (config ?s1) = collaborators_succeed e (stored e sp files)"
    using key by (simp add: collaborators_succeed_config_set)
  have old: "getValue (config ?s1) kInitialReplayGainBoost 6 =
      getValue (stored e sp files) kInitialReplayGainBoost 6"
    by (simp add: getValue_config_set)
  have nv: "version e \<noteq> ''1.12.0''"
    using current_version_not_1 [OF cur] by auto
  have gain: "m_values (config (versionUpgrade e sp files)) kInitialReplayGainBoost =
      Some (QString_number (max (- 6) (getValue (stored e sp files) kInitialReplayGainBoost 6 - 6)))"
    by (simp add: versionUpgrade_from_1_11 [OF v cur] waveform_body_values
        step_1_11_fields(2) [OF v1] old replay_gain_rescaled [OF range])
  have writes: "version_writes (trace (versionUpgrade e sp files)) =
      (if collaborators_succeed e (stored e sp files) then [''1.12.0''] else []) @
      [''2.6.0'', version e]"
    by (simp add: versionUpgrade_from_1_11 [OF v cur]
        step_1_11_fields(5) [OF v1] succ)
  have final: "getValueString (config (versionUpgrade e sp files)) kVersion = version e"
    by (simp add: versionUpgrade_from_1_11 [OF v cur] getValueString_config_set)
  show ?thesis
    using gain writes nv final by auto
qed

lemma sample_environment_fields [simp]:
  "decls sample_environment = sample_declarations"
  "platform sample_environment = Other"
  "version sample_environment = ''2.6.0''"
  "MIXXX_SETTINGS_FILE sample_environment = ''mixxx.cfg''"
  "homePath sample_environment = ''/home/dj''"
  "getSettingsPathSet sample_environment = False"
  "askReanalyzeBeats sample_environment = True"
  "askReScanLibrary sample_environment = True"
  "isPooling sample_environment = True"
  "initDatabaseSchema sample_environment = True"
  "addDirectory sample_environment = (\<lambda>path. AddResult_Ok)"
  "copy_permitted sample_environment = (\<lambda>src dest. True)"
  "remove_permitted sample_environment = (\<lambda>path. True)"
  "rename_permitted sample_environment = (\<lambda>oldName newName. True)"
  "kLegacyDirectoryConfigKey sample_environment = (''[Playlist]'', ''Directory'')"
  "kReanalyzeWhenSettingsChange sample_environment = (''[BPM]'', ''ReanalyzeWhenSettingsChange'')"
  "legacyUserMappingsPath sample_environment = (\<lambda>c. ''/home/dj/.mixxx/midi'')"
  "userMappingsPath sample_environment = (\<lambda>c. ''/home/dj/.mixxx/controllers'')"
  by (simp_all add: sample_environment_def)

lemma current_version_sample [simp]: "current_version sample_environment"
  by (simp add: current_version_def fromString_2_6_0 version_greater_eq_def)

lemma stored_no_pre170:
  assumes "\<not> QFile_exists files (pre170ConfigPath e)"
  shows "stored e sp files = ConfigObject_load files (settingsFilePath e sp)"
    and "fs (loaded_state e sp files) = files"
    and "trace (loaded_state e sp files) = []"
  using assms by (simp_all add: stored_def loaded_state_def relocate_pre170_def Let_def)

lemma sample_paths [simp]:
  "pre170ConfigPath sample_environment = ''/home/dj/.mixxx.cfg''"
  "settingsFilePath sample_environment sample_settings_path = ''/home/dj/.mixxx/mixxx.cfg''"
  "legacyConfigPath sample_environment = None"
  by (simp_all add: pre170ConfigPath_def settingsFilePath_def QDir_filePath_def
      sample_settings_path_def legacyConfigPath_def)

lemma stored_1_11:
  "stored sample_environment sample_settings_path store_1_11 =
     \<lparr> m_filename = ''/home/dj/.mixxx/mixxx.cfg'',
       m_values = [kVersion \<mapsto> ''1.11.0'', kInitialReplayGainBoost \<mapsto> ''3''] \<rparr>"
  by (subst stored_no_pre170) (simp_all add: QFile_exists_def file_at_def store_1_11_def ConfigObject_load_def file_at_def)

theorem versionUpgrade_1_11_witness:
  "startsWith (getValueString (stored sample_environment sample_settings_path store_1_11) kVersion) ''1.11''
   \<and> current_version sample_environment
   \<and> kLegacyDirectoryConfigKey sample_environment \<noteq> kVSync
   \<and> INT_MIN + 6 \<le> getValue (stored sample_environment sample_settings_path store_1_11)
        kInitialReplayGainBoost 6
   \<and> collaborators_succeed sample_environment
        (stored sample_environment sample_settings_path store_1_11)
   \<and> m_values (config (versionUpgrade sample_environment sample_settings_path store_1_11))
        kInitialReplayGainBoost = Some ''-3''
   \<and> version_writes (trace (versionUpgrade sample_environment sample_settings_path store_1_11)) =
        [''1.12.0'', ''2.6.0'', ''2.6.0'']
   \<and> \<not> collaborators_succeed (sample_environment\<lparr>initDatabaseSchema := False\<rparr>)
        (stored (sample_environment\<lparr>initDatabaseSchema := False\<rparr>) sample_settings_path store_1_11)
   \<and> ''1.12.0'' \<notin> set (version_writes (trace
        (versionUpgrade (sample_environment\<lparr>initDatabaseSchema := False\<rparr>)
           sample_settings_path store_1_11)))
   \<and> getValueString (config (versionUpgrade sample_environment sample_settings_path store_1_11))
        kVersion = ''2.6.0''
   \<and> getValueString (config (versionUpgrade (sample_environment\<lparr>initDatabaseSchema := False\<rparr>)
        sample_settings_path store_1_11)) kVersion = ''2.6.0''"
proof -
  let ?e = sample_environment and ?f = "sample_environment\<lparr>initDatabaseSchema := False\<rparr>"
  have v: "startsWith (getValueString (stored ?e sample_settings_path store_1_11) kVersion) ''1.11''"
    by (simp add: stored_1_11 getValueString_def startsWith_def)
  have key: "kLegacyDirectoryConfigKey ?e \<noteq> kVSync"
    by (simp add: kVSync_def)
  have old: "getValue (stored ?e sample_settings_path store_1_11) kInitialReplayGainBoost 6 = 3"
    by (simp add: stored_1_11 getValue_def QString_toInt_def nat_of_digits_def digit_val_def
        is_digit_def INT_MIN_def INT_MAX_def)
  have range: "INT_MIN + 6 \<le> getValue (stored ?e sample_settings_path store_1_11)
      kInitialReplayGainBoost 6"
    by (simp add: old INT_MIN_def)
  have succ: "collaborators_succeed ?e (stored ?e sample_settings_path store_1_11)"
    by (simp add: collaborators_succeed_def)
  have number: "QString_number (- 3) = ''-3''"
    by (simp add: QString_number_def digits_of_nat.simps digit_char_simps)
  have same: "stored ?f sample_settings_path store_1_11 = stored ?e sample_settings_path store_1_11"
    by (simp add: stored_no_pre170 QFile_exists_def file_at_def store_1_11_def pre170ConfigPath_def
        QDir_filePath_def settingsFilePath_def)
  have cur': "current_version ?f"
    using current_version_sample by (simp add: current_version_def)
  have fail: "\<not> collaborators_succeed ?f (stored ?f sample_settings_path store_1_11)"
    by (simp add: collaborators_succeed_def)
  have v': "startsWith (getValueString (stored ?f sample_settings_path store_1_11) kVersion) ''1.11''"
    using v by (simp add: same)
  have key': "kLegacyDirectoryConfigKey ?f \<noteq> kVSync"
    by (simp add: kVSync_def)
  have range': "INT_MIN + 6 \<le> getValue (stored ?f sample_settings_path store_1_11)
      kInitialReplayGainBoost 6"
    using range by (simp add: same)
  from versionUpgrade_1_11 [OF v current_version_sample key range]
    versionUpgrade_1_11 [OF v' cur' key' range']
    v key range succ fail
  show ?thesis
    by (simp add: old number)
qed

text \<open>
  C1 as stated fails on where the version ends: for the store of release 1.11.0 and
  collaborators that succeed, the store that the run returns is at the running version
  2.6.0, not at "1.12.0".
\<close>

theorem versionUpgrade_1_11_counterexample:
  "startsWith (getValueString (stored sample_environment sample_settings_path store_1_11) kVersion)
     ''1.11''
   \<and> collaborators_succeed sample_environment
        (stored sample_environment sample_settings_path store_1_11)
   \<and> getValueString (config (versionUpgrade sample_environment sample_settings_path store_1_11))
        kVersion = ''2.6.0''"
  by code_simp

subsection \<open>The first run\<close>

text \<open>
  C6. When the stored version is empty and no settings file of an older release is
  found at any place the function looks at, the run makes one call, the write of the
  running version to the version key; it sets the first-run flag and returns the store
  otherwise as loaded. No file is touched and no prompt is asked.
\<close>

theorem versionUpgrade_first_run:
  assumes "getValueString (stored e sp files) kVersion = []"
    and "\<not> list_ex (QFile_exists files) (probed_legacy_locations e)"
  shows "trace (versionUpgrade e sp files) = [ConfigSet kVersion (version e)]
       \<and> m_values (config (versionUpgrade e sp files)) =
           (m_values (stored e sp files))(kVersion \<mapsto> version e)
       \<and> m_bFirstRun (versionUpgrade e sp files)
       \<and> \<not> m_bRescanLibrary (versionUpgrade e sp files)
       \<and> fs (versionUpgrade e sp files) = files
       \<and> cmdlineSettingsPath (versionUpgrade e sp files) = None"
proof -
  from assms(2) have pre: "\<not> QFile_exists files (pre170ConfigPath e)"
    and legacy: "legacyConfigPath e = Some path \<Longrightarrow> \<not> QFile_exists files path" for path
    by (auto simp: probed_legacy_locations_def)
  have run: "versionUpgrade e sp files = first_run e (loaded_state e sp files)"
    using assms(1) legacy
    by (auto simp: versionUpgrade_def Let_def stored_no_pre170(2) [OF pre] split: option.split)
  show ?thesis
    by (simp add: run first_run_def stored_no_pre170 [OF pre])
qed

theorem versionUpgrade_first_run_witness:
  "getValueString (stored windows_environment ''C:/Users/dj/AppData/Local/Mixxx'' []) kVersion = []
   \<and> probed_legacy_locations windows_environment =
       [''C:/Users/dj/mixxx.cfg'', ''C:/Users/dj/Local Settings/Application Data/Mixxx/mixxx.cfg'']
   \<and> \<not> list_ex (QFile_exists []) (probed_legacy_locations windows_environment)
   \<and> trace (versionUpgrade windows_environment ''C:/Users/dj/AppData/Local/Mixxx'' []) =
       [ConfigSet kVersion ''2.6.0'']
   \<and> m_values (config (versionUpgrade windows_environment ''C:/Users/dj/AppData/Local/Mixxx'' [])) =
       [kVersion \<mapsto> ''2.6.0'']
   \<and> m_bFirstRun (versionUpgrade windows_environment ''C:/Users/dj/AppData/Local/Mixxx'' [])
   \<and> fs (versionUpgrade windows_environment ''C:/Users/dj/AppData/Local/Mixxx'' []) = []"
proof -
  have locations: "probed_legacy_locations windows_environment =
       [''C:/Users/dj/mixxx.cfg'', ''C:/Users/dj/Local Settings/Application Data/Mixxx/mixxx.cfg'']"
    by (simp add: probed_legacy_locations_def windows_environment_def pre170ConfigPath_def
        legacyConfigPath_def QDir_filePath_def)
  have none: "\<not> list_ex (QFile_exists []) (probed_legacy_locations windows_environment)"
    by (simp add: locations QFile_exists_def file_at_def)
  have pre: "\<not> QFile_exists [] (pre170ConfigPath windows_environment)"
    by (simp add: QFile_exists_def file_at_def)
  have st: "stored windows_environment ''C:/Users/dj/AppData/Local/Mixxx'' [] =
      \<lparr>m_filename = ''C:/Users/dj/AppData/Local/Mixxx/mixxx.cfg'', m_values = Map.empty\<rparr>"
    by (subst stored_no_pre170(1) [OF pre])
       (simp add: ConfigObject_load_def file_at_def settingsFilePath_def QDir_filePath_def
          windows_environment_def)
  have empty: "getValueString (stored windows_environment ''C:/Users/dj/AppData/Local/Mixxx'' []) kVersion = []"
    by (simp add: st getValueString_def)
  have running: "version windows_environment = ''2.6.0''"
    by (simp add: windows_environment_def)
  from versionUpgrade_first_run [OF empty none] empty locations none show ?thesis
    by (simp add: st running)
qed

subsection \<open>The calls of the 1.11 step\<close>

lemma migrate_library_directory_trace:
  "\<exists>calls. trace (snd (migrate_library_directory e s)) = trace s @ calls"
  by (simp add: migrate_library_directory_def Let_def)

lemma step_1_11_trace:
  assumes "startsWith (configVersion s) ''1.11''"
  shows "AskReScanLibrary (askReScanLibrary e) \<in> set (drop (length (trace s)) (trace (step_1_11 e s)))"
proof -
  obtain calls where "trace (snd (migrate_library_directory e s)) = trace s @ calls"
    using migrate_library_directory_trace by blast
  with assms show ?thesis
    by (auto simp: step_1_11_def Let_def split_def)
qed

lemma getValue_written:
  assumes "m_values c k = Some (QString_number n)" and "INT_MIN \<le> n" and "n \<le> INT_MAX"
  shows "getValue c k dflt = n"
  using assms by (simp add: getValue_def QString_toInt_number)

subsection \<open>Failing steps\<close>

lemma QFile_copy_result:
  "\<exists>ok. fst (QFile_copy e src dest io) = ok \<and>
        trace (snd (QFile_copy e src dest io)) = trace io @ [FileCopy src dest ok]"
  by (simp add: QFile_copy_def split: option.split)

lemma QFile_copy_state [simp]:
  "config (snd (QFile_copy e src dest s)) = config s"
  "configVersion (snd (QFile_copy e src dest s)) = configVersion s"
  "m_bFirstRun (snd (QFile_copy e src dest s)) = m_bFirstRun s"
  "m_bRescanLibrary (snd (QFile_copy e src dest s)) = m_bRescanLibrary s"
  "cmdlineSettingsPath (snd (QFile_copy e src dest s)) = cmdlineSettingsPath s"
  by (simp_all add: QFile_copy_def split: option.split)

text \<open>
  The loop over the old mapping files changes the files and appends copy calls only;
  \<^verbatim>\<open>successful\<close> stays true exactly when none of these copies failed.
\<close>

lemma copy_mappings_result:
  "\<exists>calls. trace (snd (copy_mappings e oldDir newDir names (ok, s))) = trace s @ calls
       \<and> config_writes calls = []
       \<and> fst (copy_mappings e oldDir newDir names (ok, s)) = (ok \<and> \<not> list_ex copy_failed calls)
       \<and> config (snd (copy_mappings e oldDir newDir names (ok, s))) = config s
       \<and> configVersion (snd (copy_mappings e oldDir newDir names (ok, s))) = configVersion s
       \<and> m_bFirstRun (snd (copy_mappings e oldDir newDir names (ok, s))) = m_bFirstRun s
       \<and> m_bRescanLibrary (snd (copy_mappings e oldDir newDir names (ok, s))) = m_bRescanLibrary s
       \<and> cmdlineSettingsPath (snd (copy_mappings e oldDir newDir names (ok, s))) =
            cmdlineSettingsPath s"
proof (induction names arbitrary: ok s)
  case Nil
  show ?case by simp
next
  case (Cons cur names)
  show ?case
  proof (cases "QFile_exists (fs s) (QDir_filePath newDir cur)")
    case True
    with Cons.IH [of ok s] show ?thesis by simp
  next
    case False
    let ?c = "QFile_copy e (QDir_filePath oldDir cur) (QDir_filePath newDir cur) s"
    obtain copied where c: "fst ?c = copied"
      and tr: "trace (snd ?c) = trace s @ [FileCopy (QDir_filePath oldDir cur) (QDir_filePath newDir cur) copied]"
      using QFile_copy_result by blast
    obtain calls where
      "trace (snd (copy_mappings e oldDir newDir names (ok \<and> copied, snd ?c))) = trace (snd ?c) @ calls"
      "config_writes calls = []"
      "fst (copy_mappings e oldDir newDir names (ok \<and> copied, snd ?c)) =
         ((ok \<and> copied) \<and> \<not> list_ex copy_failed calls)"
      "config (snd (copy_mappings e oldDir newDir names (ok \<and> copied, snd ?c))) = config (snd ?c)"
      "configVersion (snd (copy_mappings e oldDir newDir names (ok \<and> copied, snd ?c))) = configVersion (snd ?c)"
      "m_bFirstRun (snd (copy_mappings e oldDir newDir names (ok \<and> copied, snd ?c))) = m_bFirstRun (snd ?c)"
      "m_bRescanLibrary (snd (copy_mappings e oldDir newDir names (ok \<and> copied, snd ?c))) = m_bRescanLibrary (snd ?c)"
      "cmdlineSettingsPath (snd (copy_mappings e oldDir newDir names (ok \<and> copied, snd ?c))) = cmdlineSettingsPath (snd ?c)"
      using Cons.IH [of "ok \<and> copied" "snd ?c"] by blast
    moreover have "copy_mappings e oldDir newDir (cur # names) (ok, s) =
        copy_mappings e oldDir newDir names (ok \<and> copied, snd ?c)"
      using False c by (cases ?c) auto
    ultimately show ?thesis
      using tr
      by (intro exI [of _ "FileCopy (QDir_filePath oldDir cur) (QDir_filePath newDir cur) copied # calls"])
         auto
  qed
qed

lemma startsWith_1_9:
  assumes "startsWith v ''1.9'' \<or> startsWith v ''1.10''"
  shows "\<not> startsWith v ''1.7''" "\<not> startsWith v ''1.8.0~beta1''" "\<not> startsWith v ''1.8.0~beta2''"
    "\<not> startsWith v ''1.8''" "\<not> startsWith v ''1.11''" "v \<noteq> []" "prefix ''1.'' v"
  using assms by (auto simp: startsWith_def prefix_def)

lemma copy_failed_config_set [simp]:
  "list_ex copy_failed (trace (config_set k v s)) = list_ex copy_failed (trace s)"
  by simp

lemma copy_failed_waveform_body [simp]:
  "list_ex copy_failed (trace (waveform_body e s)) = list_ex copy_failed (trace s)"
  by (simp add: waveform_body_def Let_def split_def)

lemma copy_failed_step_1_11 [simp]:
  "list_ex copy_failed (trace (step_1_11 e s)) = list_ex copy_failed (trace s)"
  by (simp add: step_1_11_def migrate_library_directory_def Let_def split_def)

lemma step_1_9_result:
  assumes v: "startsWith (configVersion s) ''1.9'' \<or> startsWith (configVersion s) ''1.10''"
  shows "\<exists>calls. config_writes calls = []
     \<and> trace (step_1_9 e s) =
         trace s @ calls @
         [AskReanalyzeBeats (askReanalyzeBeats e),
          ConfigSet (kReanalyzeWhenSettingsChange e)
            (QString_number (if askReanalyzeBeats e then 1 else 0))] @
         (if list_ex copy_failed calls then [] else [ConfigSet kVersion ''1.11.0''])
     \<and> configVersion (step_1_9 e s) =
         (if list_ex copy_failed calls then configVersion s else ''1.11.0'')
     \<and> m_values (config (step_1_9 e s)) =
         (if list_ex copy_failed calls
          then (m_values (config s))(kReanalyzeWhenSettingsChange e \<mapsto>
                 QString_number (if askReanalyzeBeats e then 1 else 0))
          else (m_values (config s))(kReanalyzeWhenSettingsChange e \<mapsto>
                 QString_number (if askReanalyzeBeats e then 1 else 0),
                 kVersion \<mapsto> ''1.11.0''))
     \<and> m_filename (config (step_1_9 e s)) = m_filename (config s)
     \<and> m_bFirstRun (step_1_9 e s) = m_bFirstRun s
     \<and> m_bRescanLibrary (step_1_9 e s) = m_bRescanLibrary s
     \<and> cmdlineSettingsPath (step_1_9 e s) = cmdlineSettingsPath s"
proof -
  let ?loop = "copy_mappings e (legacyUserMappingsPath e (config s)) (userMappingsPath e (config s))
      (QDir_entryList (fs s) (legacyUserMappingsPath e (config s))) (True, s)"
  obtain calls where calls: "trace (snd ?loop) = trace s @ calls" "config_writes calls = []"
    "fst ?loop = (\<not> list_ex copy_failed calls)"
    "config (snd ?loop) = config s" "configVersion (snd ?loop) = configVersion s"
    "m_bFirstRun (snd ?loop) = m_bFirstRun s" "m_bRescanLibrary (snd ?loop) = m_bRescanLibrary s"
    "cmdlineSettingsPath (snd ?loop) = cmdlineSettingsPath s"
    using copy_mappings_result [of e "legacyUserMappingsPath e (config s)"
        "userMappingsPath e (config s)" "QDir_entryList (fs s) (legacyUserMappingsPath e (config s))"
        True s]
    by auto
  show ?thesis
    using v calls
    by (intro exI [of _ calls])
       (simp add: step_1_9_def Let_def split_def setReanalyzeWhenSettingsChange_def)
qed

lemma tail_1_calls:
  assumes "prefix ''1.'' (configVersion s)"
  shows "version_writes (trace (step_clean e (step_waveform e (step_framerate s)))) =
           version_writes (trace s) @ [''2.6.0'', version e]"
    and "list_ex copy_failed (trace (step_clean e (step_waveform e (step_framerate s)))) =
           list_ex copy_failed (trace s)"
  by (simp_all add: tail_1 [OF assms])

lemma ladder_from_1_9:
  assumes "startsWith (configVersion s) ''1.9'' \<or> startsWith (configVersion s) ''1.10''"
    and "\<not> startsWith (configVersion s) ''1.9.0beta1''"
  shows "ladder e sp s =
         step_clean e (step_waveform e (step_framerate (step_1_11 e (step_1_9 e s))))"
  using startsWith_1_9 [OF assms(1)] assms(2)
  by (simp add: ladder_def early_steps_def step_1_7_def step_1_8_beta_def step_1_8_def)

lemma step_1_11_skipped:
  "\<not> startsWith (configVersion s) ''1.11'' \<Longrightarrow> step_1_11 e s = s"
  by (simp add: step_1_11_def)

lemma step_1_11_prefix_1:
  assumes "prefix ''1.'' (configVersion s)"
  shows "prefix ''1.'' (configVersion (step_1_11 e s))"
proof (cases "startsWith (configVersion s) ''1.11''")
  case True
  with assms show ?thesis by (simp add: step_1_11_fields(1))
next
  case False
  with assms show ?thesis by (simp add: step_1_11_skipped)
qed

lemma versionUpgrade_1_9_calls:
  assumes v: "startsWith (getValueString (stored e sp files) kVersion) ''1.9'' \<or>
              startsWith (getValueString (stored e sp files) kVersion) ''1.10''"
    and nb: "\<not> startsWith (getValueString (stored e sp files) kVersion) ''1.9.0beta1''"
    and cur: "current_version e"
    and key: "kReanalyzeWhenSettingsChange e \<noteq> kVersion"
    and pre: "\<not> QFile_exists files (pre170ConfigPath e)"
  shows "(''1.11.0'' \<in> set (version_writes (trace (versionUpgrade e sp files))) \<longleftrightarrow>
           \<not> list_ex copy_failed (trace (versionUpgrade e sp files)))
       \<and> (list_ex copy_failed (trace (versionUpgrade e sp files)) \<longrightarrow>
           version_writes (trace (versionUpgrade e sp files)) = [''2.6.0'', version e])"
proof -
  let ?cv = "getValueString (stored e sp files) kVersion"
  let ?s1 = "config_set kVSync (QString_number (upgradeDeprecatedVSyncModes (decls e)
      (getValue (stored e sp files) kVSync 0))) (loaded_state e sp files)"
  let ?s2 = "step_1_9 e ?s1"
  let ?r = "versionUpgrade e sp files"
  have p: "prefix ''1.'' ?cv" and ne: "?cv \<noteq> []" and n11: "\<not> startsWith ?cv ''1.11''"
    using startsWith_1_9 [OF v] by simp_all
  have nv: "configVersion (loaded_state e sp files) \<noteq> version e"
    using p current_version_not_1 [OF cur] by auto
  have running: "version e \<noteq> ''1.11.0''"
    using current_version_not_1 [OF cur] by auto
  have v1: "startsWith (configVersion ?s1) ''1.9'' \<or> startsWith (configVersion ?s1) ''1.10''"
    and nb1: "\<not> startsWith (configVersion ?s1) ''1.9.0beta1''"
    using v nb by simp_all
  have run: "?r = step_clean e (step_waveform e (step_framerate (step_1_11 e ?s2)))"
    using upgrade_versioned_ladder [OF nv]
    by (simp add: versionUpgrade_versioned [OF ne] ladder_from_1_9 [OF v1 nb1])
  obtain calls where calls: "config_writes calls = []"
    "trace ?s2 = trace ?s1 @ calls @
         [AskReanalyzeBeats (askReanalyzeBeats e),
          ConfigSet (kReanalyzeWhenSettingsChange e)
            (QString_number (if askReanalyzeBeats e then 1 else 0))] @
         (if list_ex copy_failed calls then [] else [ConfigSet kVersion ''1.11.0''])"
    "configVersion ?s2 = (if list_ex copy_failed calls then configVersion ?s1 else ''1.11.0'')"
    using step_1_9_result [OF v1, of e] by blast
  have no_writes: "version_writes calls = []"
    using calls(1) by (simp add: version_writes_def)
  have failed: "list_ex copy_failed (trace ?s2) = list_ex copy_failed calls"
    by (simp add: calls(2) stored_no_pre170(3) [OF pre])
  have writes2: "version_writes (trace ?s2) =
      (if list_ex copy_failed calls then [] else [''1.11.0''])"
    using key by (simp add: calls(2) no_writes)
  have p2: "prefix ''1.'' (configVersion ?s2)"
    using p by (simp add: calls(3))
  have p3: "prefix ''1.'' (configVersion (step_1_11 e ?s2))"
    using p2 by (rule step_1_11_prefix_1)
  have failed_all: "list_ex copy_failed (trace ?r) = list_ex copy_failed calls"
    by (simp add: run tail_1_calls(2) [OF p3] failed)
  have writes_all: "version_writes (trace ?r) =
      version_writes (trace (step_1_11 e ?s2)) @ [''2.6.0'', version e]"
    by (simp add: run tail_1_calls(1) [OF p3])
  show ?thesis
  proof (cases "list_ex copy_failed calls")
    case True
    then have "step_1_11 e ?s2 = ?s2"
      using n11 by (simp add: step_1_11_skipped calls(3))
    then have "version_writes (trace ?r) = [''2.6.0'', version e]"
      using True by (simp add: writes_all writes2)
    then show ?thesis
      using True running by (simp add: failed_all)
  next
    case False
    then have v2: "startsWith (configVersion ?s2) ''1.11''"
      by (simp add: calls(3) startsWith_def)
    have "''1.11.0'' \<in> set (version_writes (trace ?r))"
      using False by (simp add: writes_all step_1_11_fields(5) [OF v2] writes2)
    then show ?thesis
      using False by (simp add: failed_all)
  qed
qed

text \<open>
  C7, as the code has it. In the 1.9/1.10 step and in the 1.11 step a failure keeps the
  step from advancing the version marker, and the run goes on with the remaining
  steps: for a store at 1.9 or 1.10, the marker is given the value "1.11.0" if and
  only if no copy of the run failed; after a failed copy, and for a store at 1.11 after
  a failed collaborator, the only values the marker is given are those of the later
  steps, "2.6.0" and the running version.
\<close>

theorem failed_step_keeps_marker:
  assumes cur: "current_version e"
    and key: "kReanalyzeWhenSettingsChange e \<noteq> kVersion"
    and dir: "kLegacyDirectoryConfigKey e \<noteq> kVSync"
    and pre: "\<not> QFile_exists files (pre170ConfigPath e)"
  shows "((startsWith (getValueString (stored e sp files) kVersion) ''1.9'' \<or>
           startsWith (getValueString (stored e sp files) kVersion) ''1.10'') \<and>
          \<not> startsWith (getValueString (stored e sp files) kVersion) ''1.9.0beta1'' \<longrightarrow>
            (''1.11.0'' \<in> set (version_writes (trace (versionUpgrade e sp files))) \<longleftrightarrow>
               \<not> list_ex copy_failed (trace (versionUpgrade e sp files)))
          \<and> (list_ex copy_failed (trace (versionUpgrade e sp files)) \<longrightarrow>
               version_writes (trace (versionUpgrade e sp files)) = [''2.6.0'', version e]))
       \<and> (startsWith (getValueString (stored e sp files) kVersion) ''1.11'' \<and>
          \<not> collaborators_succeed e (stored e sp files) \<longrightarrow>
            version_writes (trace (versionUpgrade e sp files)) = [''2.6.0'', version e])"
proof -
  have "version_writes (trace (versionUpgrade e sp files)) = [''2.6.0'', version e]"
    if v: "startsWith (getValueString (stored e sp files) kVersion) ''1.11''"
      and failed: "\<not> collaborators_succeed e (stored e sp files)"
  proof -
    let ?s1 = "config_set kVSync (QString_number (upgradeDeprecatedVSyncModes (decls e)
        (getValue (stored e sp files) kVSync 0))) (loaded_state e sp files)"
    have v1: "startsWith (configVersion ?s1) ''1.11''"
      using v by simp
    have "\<not> collaborators_succeed e (config ?s1)"
      using failed dir by (simp add: collaborators_succeed_config_set)
    then show ?thesis
      by (simp add: versionUpgrade_from_1_11 [OF v cur] step_1_11_fields(5) [OF v1])
  qed
  then show ?thesis
    using versionUpgrade_1_9_calls [OF _ _ cur key pre, of sp] by blast
qed

lemma failed_copy_run:
  "trace (versionUpgrade no_copy_environment sample_settings_path store_1_10) =
     [ConfigSet kVSync ''0'',
      FileCopy ''/home/dj/.mixxx/midi/x.xml'' ''/home/dj/.mixxx/controllers/x.xml'' False,
      AskReanalyzeBeats True,
      ConfigSet (''[BPM]'', ''ReanalyzeWhenSettingsChange'') ''1'',
      ConfigSet kFrameRate ''60'',
      ConfigSet kWaveformType ''0'',
      ConfigSet kUseHardwareAcceleration ''0'',
      ConfigSet kWaveformOptions ''0'',
      ConfigSet kVersion ''2.6.0'',
      ConfigSet kVersion ''2.6.0'']"
  by code_simp

theorem failed_step_keeps_marker_witness:
  "current_version no_copy_environment
   \<and> kReanalyzeWhenSettingsChange no_copy_environment \<noteq> kVersion
   \<and> kLegacyDirectoryConfigKey no_copy_environment \<noteq> kVSync
   \<and> \<not> QFile_exists store_1_10 (pre170ConfigPath no_copy_environment)
   \<and> startsWith (getValueString (stored no_copy_environment sample_settings_path store_1_10)
        kVersion) ''1.10''
   \<and> \<not> startsWith (getValueString (stored no_copy_environment sample_settings_path store_1_10)
        kVersion) ''1.9.0beta1''
   \<and> list_ex copy_failed (trace (versionUpgrade no_copy_environment sample_settings_path store_1_10))
   \<and> version_writes (trace (versionUpgrade no_copy_environment sample_settings_path store_1_10)) =
        [''2.6.0'', ''2.6.0'']
   \<and> current_version failing_environment
   \<and> kReanalyzeWhenSettingsChange failing_environment \<noteq> kVersion
   \<and> kLegacyDirectoryConfigKey failing_environment \<noteq> kVSync
   \<and> \<not> QFile_exists store_1_11 (pre170ConfigPath failing_environment)
   \<and> startsWith (getValueString (stored failing_environment sample_settings_path store_1_11)
        kVersion) ''1.11''
   \<and> \<not> collaborators_succeed failing_environment
        (stored failing_environment sample_settings_path store_1_11)
   \<and> version_writes (trace (versionUpgrade failing_environment sample_settings_path store_1_11)) =
        [''2.6.0'', ''2.6.0'']"
proof -
  have cur: "current_version no_copy_environment" "current_version failing_environment"
    by code_simp+
  have key: "kReanalyzeWhenSettingsChange no_copy_environment \<noteq> kVersion"
    "kReanalyzeWhenSettingsChange failing_environment \<noteq> kVersion"
    by code_simp+
  have dir: "kLegacyDirectoryConfigKey no_copy_environment \<noteq> kVSync"
    "kLegacyDirectoryConfigKey failing_environment \<noteq> kVSync"
    by code_simp+
  have pre: "\<not> QFile_exists store_1_10 (pre170ConfigPath no_copy_environment)"
    "\<not> QFile_exists store_1_11 (pre170ConfigPath failing_environment)"
    by code_simp+
  have v: "startsWith (getValueString (stored no_copy_environment sample_settings_path store_1_10)
        kVersion) ''1.10''"
    by code_simp
  have nb: "\<not> startsWith (getValueString (stored no_copy_environment sample_settings_path store_1_10)
        kVersion) ''1.9.0beta1''"
    by code_simp
  have failed: "list_ex copy_failed
      (trace (versionUpgrade no_copy_environment sample_settings_path store_1_10))"
    by (simp add: failed_copy_run)
  have v': "startsWith (getValueString (stored failing_environment sample_settings_path store_1_11)
        kVersion) ''1.11''"
    by code_simp
  have failed': "\<not> collaborators_succeed failing_environment
        (stored failing_environment sample_settings_path store_1_11)"
    by code_simp
  have running: "version no_copy_environment = ''2.6.0''" "version failing_environment = ''2.6.0''"
    by (simp_all add: no_copy_environment_def failing_environment_def)
  from failed_step_keeps_marker [OF cur(1) key(1) dir(1) pre(1), of sample_settings_path]
    failed_step_keeps_marker [OF cur(2) key(2) dir(2) pre(2), of sample_settings_path]
    cur key dir pre v nb failed v' failed'
  show ?thesis
    by (simp add: running)
qed

text \<open>
  C7 as stated fails on macOS: the relocation of the 1.8 step logs a failed copy and
  advances the marker to "1.9.0" all the same. The first six calls of the run on a
  store of release 1.8.0 whose files the system refuses to copy:
\<close>

theorem failed_step_keeps_marker_counterexample:
  "take 6 (trace (versionUpgrade apple_environment apple_settings_path store_1_8)) =
     [ConfigSet kVSync ''0'',
      FileCopy ''/Users/dj/.mixxx/mixxx.cfg''
        ''/Users/dj/Library/Application Support/Mixxx//mixxx.cfg'' False,
      DirRename ''/Users/dj/.mixxx'' ''/Users/dj/.mixxx-1.8'' True,
      DirRename ''/Users/dj/.mixxx'' ''/Users/dj/.mixxx-1.8'' False,
      DirRename ''/Users/dj/.mixxx'' ''/Users/dj/.mixxx-1.8'' False,
      ConfigSet kVersion ''1.9.0'']"
  by code_simp

subsection \<open>The waveform step\<close>

lemma QDir_rename_state [simp]:
  "config_writes (trace (QDir_rename e a b s)) = config_writes (trace s)"
  "configVersion (QDir_rename e a b s) = configVersion s"
  by (simp_all add: QDir_rename_def Let_def)

lemma osx_copy_files_state [simp]:
  "config_writes (trace (osx_copy_files e a b names s)) = config_writes (trace s)"
  "configVersion (osx_copy_files e a b names s) = configVersion s"
  by (induction names arbitrary: s) simp_all

lemma osx_move_dirs_state [simp]:
  "config_writes (trace (osx_move_dirs e old dirs s)) = config_writes (trace s)"
  "configVersion (osx_move_dirs e old dirs s) = configVersion s"
  by (induction dirs arbitrary: s) simp_all

lemma osx_relocate_state [simp]:
  "config_writes (trace (osx_relocate e sp s)) = config_writes (trace s)"
  "configVersion (osx_relocate e sp s) = configVersion s"
  by (simp_all add: osx_relocate_def Let_def)

lemma written_keys_eq: "written_keys es = fst ` set (config_writes es)"
  by (simp add: written_keys_def)

text \<open>
  The steps up to 1.11 write the version key, the key of the beat detection and the
  replay gain only, and do not change whether the condition of the waveform step holds.
\<close>

lemma startsWith_prefix_1:
  "startsWith v ''1.7'' \<Longrightarrow> prefix ''1.'' v"
  "startsWith v ''1.8.0~beta1'' \<Longrightarrow> prefix ''1.'' v"
  "startsWith v ''1.8.0~beta2'' \<Longrightarrow> prefix ''1.'' v"
  "startsWith v ''1.8'' \<Longrightarrow> prefix ''1.'' v"
  "startsWith v ''1.9.0beta1'' \<Longrightarrow> prefix ''1.'' v"
  "startsWith v ''1.9'' \<Longrightarrow> prefix ''1.'' v"
  "startsWith v ''1.10'' \<Longrightarrow> prefix ''1.'' v"
  "startsWith v ''1.11'' \<Longrightarrow> prefix ''1.'' v"
  by (auto simp: startsWith_def prefix_def)

lemma step_1_7_early:
  "waveform_gate e (configVersion (step_1_7 s)) = waveform_gate e (configVersion s)"
  "written_keys (trace (step_1_7 s)) \<subseteq> written_keys (trace s) \<union> early_keys e"
  by (auto simp: step_1_7_def waveform_gate_1 startsWith_prefix_1 early_keys_def)

lemma step_1_8_beta_early:
  "waveform_gate e (configVersion (step_1_8_beta s)) = waveform_gate e (configVersion s)"
  "written_keys (trace (step_1_8_beta s)) \<subseteq> written_keys (trace s) \<union> early_keys e"
  by (auto simp: step_1_8_beta_def waveform_gate_1 startsWith_prefix_1 early_keys_def)

lemma step_1_8_early:
  "waveform_gate e (configVersion (step_1_8 e sp s)) = waveform_gate e (configVersion s)"
  "written_keys (trace (step_1_8 e sp s)) \<subseteq> written_keys (trace s) \<union> early_keys e"
  by (auto simp: step_1_8_def waveform_gate_1 startsWith_prefix_1 early_keys_def written_keys_eq)

lemma step_1_9_early:
  "waveform_gate e (configVersion (step_1_9 e s)) = waveform_gate e (configVersion s)"
  "written_keys (trace (step_1_9 e s)) \<subseteq> written_keys (trace s) \<union> early_keys e"
proof -
  show "waveform_gate e (configVersion (step_1_9 e s)) = waveform_gate e (configVersion s)"
  proof (cases "startsWith (configVersion s) ''1.9'' \<or> startsWith (configVersion s) ''1.10''")
    case True
    then have "prefix ''1.'' (configVersion s)"
      using startsWith_prefix_1 by blast
    moreover obtain calls where
      "configVersion (step_1_9 e s) =
         (if list_ex copy_failed calls then configVersion s else ''1.11.0'')"
      using step_1_9_result [OF True, of e] by blast
    ultimately show ?thesis
      by (simp add: waveform_gate_1)
  next
    case False
    then show ?thesis by (simp add: step_1_9_def)
  qed
  show "written_keys (trace (step_1_9 e s)) \<subseteq> written_keys (trace s) \<union> early_keys e"
  proof (cases "startsWith (configVersion s) ''1.9'' \<or> startsWith (configVersion s) ''1.10''")
    case True
    obtain calls where "config_writes calls = []"
      "trace (step_1_9 e s) =
         trace s @ calls @
         [AskReanalyzeBeats (askReanalyzeBeats e),
          ConfigSet (kReanalyzeWhenSettingsChange e)
            (QString_number (if askReanalyzeBeats e then 1 else 0))] @
         (if list_ex copy_failed calls then [] else [ConfigSet kVersion ''1.11.0''])"
      using step_1_9_result [OF True, of e] by blast
    then show ?thesis
      by (auto simp: early_keys_def written_keys_eq)
  next
    case False
    then show ?thesis by (simp add: step_1_9_def)
  qed
qed

lemma step_1_11_early:
  "waveform_gate e (configVersion (step_1_11 e s)) = waveform_gate e (configVersion s)"
  "written_keys (trace (step_1_11 e s)) \<subseteq> written_keys (trace s) \<union> early_keys e"
  by (auto simp: step_1_11_def Let_def split_def waveform_gate_1 startsWith_prefix_1
      early_keys_def)

lemma early_steps_early:
  "waveform_gate e (configVersion (early_steps e sp s)) = waveform_gate e (configVersion s)"
  "written_keys (trace (early_steps e sp s)) \<subseteq> written_keys (trace s) \<union> early_keys e"
proof -
  show "waveform_gate e (configVersion (early_steps e sp s)) = waveform_gate e (configVersion s)"
    by (simp add: early_steps_def step_1_7_early(1) step_1_8_beta_early(1) step_1_8_early(1)
        step_1_9_early(1) step_1_11_early(1))
  have "written_keys (trace (early_steps e sp s)) \<subseteq>
      written_keys (trace (step_1_9 e (step_1_8 e sp (step_1_8_beta (step_1_7 s))))) \<union> early_keys e"
    unfolding early_steps_def by (rule step_1_11_early(2))
  also have "\<dots> \<subseteq> written_keys (trace (step_1_8 e sp (step_1_8_beta (step_1_7 s)))) \<union> early_keys e"
    using step_1_9_early(2) by blast
  also have "\<dots> \<subseteq> written_keys (trace (step_1_8_beta (step_1_7 s))) \<union> early_keys e"
    using step_1_8_early(2) by blast
  also have "\<dots> \<subseteq> written_keys (trace (step_1_7 s)) \<union> early_keys e"
    using step_1_8_beta_early(2) by blast
  also have "\<dots> \<subseteq> written_keys (trace s) \<union> early_keys e"
    using step_1_7_early(2) by blast
  finally show "written_keys (trace (early_steps e sp s)) \<subseteq> written_keys (trace s) \<union> early_keys e" .
qed

lemma ladder_early: "ladder e sp s = step_clean e (step_waveform e (step_framerate (early_steps e sp s)))"
  by (simp add: ladder_def)

lemma step_framerate_state [simp]:
  "configVersion (step_framerate s) = configVersion s"
  "written_keys (trace (step_framerate s)) =
     (if version_less (QVersionNumber_fromString (configVersion s)) [2, 4, 0]
      then written_keys (trace s) \<union> {kFrameRate} else written_keys (trace s))"
  by (simp_all add: step_framerate_def)

lemma step_clean_keys:
  "written_keys (trace (step_clean e s)) \<subseteq> written_keys (trace s) \<union> {kVersion}"
  "written_keys (trace s) \<subseteq> written_keys (trace (step_clean e s))"
  by (auto simp: step_clean_def)

lemma step_waveform_keys:
  "written_keys (trace (step_waveform e s)) =
     (if waveform_gate e (configVersion s)
      then written_keys (trace s) \<union>
             {kWaveformType, kUseHardwareAcceleration, kWaveformOptions, kVersion}
      else written_keys (trace s))"
  by (simp add: step_waveform_def)

text \<open>The waveform step of the ladder runs exactly when its condition holds for the version the ladder started from.\<close>

lemma ladder_waveform:
  assumes k: "k \<in> {kWaveformType, kUseHardwareAcceleration, kWaveformOptions}"
    and fresh: "k \<notin> written_keys (trace s)"
    and key: "k \<noteq> kReanalyzeWhenSettingsChange e"
  shows "k \<in> written_keys (trace (ladder e sp s)) \<longleftrightarrow> waveform_gate e (configVersion s)"
proof -
  let ?a = "early_steps e sp s"
  let ?b = "step_framerate ?a"
  have k_early: "k \<notin> early_keys e" and k_other: "k \<noteq> kFrameRate" "k \<noteq> kVersion"
    using k key by (auto simp: early_keys_def)
  have "k \<notin> written_keys (trace ?a)"
    using early_steps_early(2) [of e sp s] fresh k_early by blast
  then have before: "k \<notin> written_keys (trace ?b)"
    using k_other by simp
  have gate: "waveform_gate e (configVersion ?b) = waveform_gate e (configVersion s)"
    by (simp add: early_steps_early(1))
  have "k \<in> written_keys (trace (step_waveform e ?b)) \<longleftrightarrow> waveform_gate e (configVersion s)"
    using before k by (auto simp: step_waveform_keys early_steps_early(1))
  moreover have "k \<in> written_keys (trace (step_clean e (step_waveform e ?b))) \<longleftrightarrow>
      k \<in> written_keys (trace (step_waveform e ?b))"
    using step_clean_keys [where e = e and s = "step_waveform e ?b"] k_other by blast
  ultimately show ?thesis
    by (simp add: ladder_early)
qed

text \<open>
  C2, as the code has it. For a store with a version: when the stored version is the
  running version the run stops at line 379 and the waveform step does not execute;
  otherwise the step (which alone writes the three waveform keys) executes if and only
  if the stored version parses to a number below 2.6.0, or starts with "2.6.0-" while
  the running version is not "2.6.0-beta".
\<close>

theorem waveform_step_executes:
  assumes ne: "getValueString (stored e sp files) kVersion \<noteq> []"
    and key: "kReanalyzeWhenSettingsChange e \<notin>
        {kWaveformType, kUseHardwareAcceleration, kWaveformOptions}"
    and k: "k \<in> {kWaveformType, kUseHardwareAcceleration, kWaveformOptions}"
  shows "(getValueString (stored e sp files) kVersion \<noteq> version e \<longrightarrow>
           (k \<in> written_keys (trace (versionUpgrade e sp files)) \<longleftrightarrow>
              version_less (QVersionNumber_fromString (getValueString (stored e sp files) kVersion))
                [2, 6, 0] \<or>
              (version e \<noteq> ''2.6.0-beta'' \<and>
               startsWith (getValueString (stored e sp files) kVersion) ''2.6.0-'')))
       \<and> (getValueString (stored e sp files) kVersion = version e \<longrightarrow>
           k \<notin> written_keys (trace (versionUpgrade e sp files)))"
proof -
  let ?s1 = "config_set kVSync (QString_number (upgradeDeprecatedVSyncModes (decls e)
      (getValue (stored e sp files) kVSync 0))) (loaded_state e sp files)"
  have kv: "k \<noteq> kVSync" and kr: "k \<noteq> kReanalyzeWhenSettingsChange e"
    using k key by auto
  have fresh: "k \<notin> written_keys (trace ?s1)"
    using kv by simp
  have "k \<in> written_keys (trace (versionUpgrade e sp files)) \<longleftrightarrow>
      waveform_gate e (getValueString (stored e sp files) kVersion)"
    if "getValueString (stored e sp files) kVersion \<noteq> version e"
  proof -
    from that have "configVersion (loaded_state e sp files) \<noteq> version e"
      by simp
    then have "versionUpgrade e sp files = ladder e sp ?s1"
      using upgrade_versioned_ladder by (simp add: versionUpgrade_versioned [OF ne])
    then show ?thesis
      using ladder_waveform [OF k fresh kr, of sp] by simp
  qed
  moreover have "k \<notin> written_keys (trace (versionUpgrade e sp files))"
    if "getValueString (stored e sp files) kVersion = version e"
    using that fresh by (simp add: versionUpgrade_versioned [OF ne] upgrade_versioned_def Let_def)
  ultimately show ?thesis
    by (simp add: waveform_gate_def)
qed

theorem waveform_step_executes_witness:
  "getValueString (stored sample_environment sample_settings_path store_2_6_0_beta) kVersion =
     ''2.6.0-beta''
   \<and> kReanalyzeWhenSettingsChange sample_environment \<notin>
       {kWaveformType, kUseHardwareAcceleration, kWaveformOptions}
   \<and> version sample_environment = ''2.6.0''
   \<and> startsWith ''2.6.0-beta'' ''2.6.0-''
   \<and> kWaveformType \<in> written_keys
        (trace (versionUpgrade sample_environment sample_settings_path store_2_6_0_beta))
   \<and> getValueString (stored beta_environment sample_settings_path store_2_6_0_beta) kVersion =
     version beta_environment
   \<and> kWaveformType \<notin> written_keys
        (trace (versionUpgrade beta_environment sample_settings_path store_2_6_0_beta))"
proof -
  have stored_version:
    "getValueString (stored sample_environment sample_settings_path store_2_6_0_beta) kVersion =
       ''2.6.0-beta''"
    "getValueString (stored beta_environment sample_settings_path store_2_6_0_beta) kVersion =
       ''2.6.0-beta''"
    by code_simp+
  have key: "kReanalyzeWhenSettingsChange sample_environment \<notin>
       {kWaveformType, kUseHardwareAcceleration, kWaveformOptions}"
    "kReanalyzeWhenSettingsChange beta_environment \<notin>
       {kWaveformType, kUseHardwareAcceleration, kWaveformOptions}"
    by code_simp+
  have running: "version sample_environment = ''2.6.0''" "version beta_environment = ''2.6.0-beta''"
    by (simp_all add: beta_environment_def)
  have starts: "startsWith ''2.6.0-beta'' ''2.6.0-''"
    by (simp add: startsWith_def)
  have ne: "getValueString (stored sample_environment sample_settings_path store_2_6_0_beta)
      kVersion \<noteq> []"
    "getValueString (stored beta_environment sample_settings_path store_2_6_0_beta) kVersion \<noteq> []"
    by (simp_all add: stored_version)
  have k: "kWaveformType \<in> {kWaveformType, kUseHardwareAcceleration, kWaveformOptions}"
    by simp
  from waveform_step_executes [OF ne(1) key(1) k] waveform_step_executes [OF ne(2) key(2) k]
    key(1) starts
  show ?thesis
    by (simp add: stored_version running)
qed

text \<open>
  C2 as stated fails where the run stops before the ladder. A store that the build
  2.6.0-alpha left, opened by that build again, has a version that starts with
  "2.6.0-" and the running version is not "2.6.0-beta", yet the only call of the run is
  the rewrite of the vsync mode (return at line 379). And on a first run of release
  2.6.0 the stored version is empty, which parses to a number below 2.6.0, yet the only
  call of the run is the stamp of the version (return at line 364).
\<close>

theorem waveform_step_executes_counterexample:
  "getValueString (stored alpha_environment sample_settings_path store_2_6_0_alpha) kVersion =
     ''2.6.0-alpha''
   \<and> startsWith ''2.6.0-alpha'' ''2.6.0-''
   \<and> version alpha_environment \<noteq> ''2.6.0-beta''
   \<and> trace (versionUpgrade alpha_environment sample_settings_path store_2_6_0_alpha) =
       [ConfigSet kVSync ''0'']
   \<and> getValueString (stored sample_environment sample_settings_path []) kVersion = []
   \<and> version_less (QVersionNumber_fromString []) [2, 6, 0]
   \<and> trace (versionUpgrade sample_environment sample_settings_path []) =
       [ConfigSet kVersion ''2.6.0'']"
  by code_simp

subsection \<open>The store in memory and the files\<close>




lemma step_1_7_keeps [simp]:
  "fs (step_1_7 s) = fs s"
  "m_filename (config (step_1_7 s)) = m_filename (config s)"
  "k \<noteq> kVersion \<Longrightarrow> m_values (config (step_1_7 s)) k = m_values (config s) k"
  by (simp_all add: step_1_7_def)

lemma step_1_8_beta_keeps [simp]:
  "fs (step_1_8_beta s) = fs s"
  "m_filename (config (step_1_8_beta s)) = m_filename (config s)"
  "k \<noteq> kVersion \<Longrightarrow> m_values (config (step_1_8_beta s)) k = m_values (config s) k"
  by (simp_all add: step_1_8_beta_def)





























subsection \<open>Running the upgrade twice\<close>

lemma upgradeDeprecatedVSyncModes_range:
  assumes "distinct (vsync_case_labels d)" and "0 \<le> ST_COUNT d" and "vsync_modes_are_ints d"
  shows "INT_MIN \<le> upgradeDeprecatedVSyncModes d v" and "upgradeDeprecatedVSyncModes d v \<le> INT_MAX"
  using assms(3)
  by (auto simp: upgradeDeprecatedVSyncModes_cases [OF assms(1,2)] vsync_modes_are_ints_def
      vsync_case_labels_def)


lemma loaded_state_filename [simp]:
  "m_filename (stored e sp files) = settingsFilePath e sp"
  by (simp add: stored_def loaded_state_def Let_def ConfigObject_load_def file_at_def)

lemma load_saved:
  "ConfigObject_load (ConfigObject_save c files) (m_filename c) = c"
  by (simp add: ConfigObject_load_def file_at_def ConfigObject_save_def)

lemma current_version_not_empty: "current_version e \<Longrightarrow> version e \<noteq> []"
  by (auto simp: current_version_def version_greater_eq_def QVersionNumber_fromString.simps)

text \<open>
  A run on a store that was saved at the running version, with a vsync mode that the
  remapper has produced: the store is returned as it is.
\<close>

lemma second_run:
  assumes name: "m_filename (config r) = settingsFilePath e sp"
    and version1: "m_values (config r) kVersion = Some (version e)"
    and vsync1: "m_values (config r) kVSync =
        Some (QString_number (upgradeDeprecatedVSyncModes (decls e) x))"
    and running: "version e \<noteq> []"
    and labels: "distinct (vsync_case_labels (decls e))"
    and count: "0 \<le> ST_COUNT (decls e)"
    and ints: "vsync_modes_are_ints (decls e)"
    and pre: "\<not> QFile_exists (ConfigObject_save (config r) (fs r)) (pre170ConfigPath e)"
  shows "config (versionUpgrade e sp (ConfigObject_save (config r) (fs r))) = config r"
    and "trace (versionUpgrade e sp (ConfigObject_save (config r) (fs r))) =
         [ConfigSet kVSync (getValueString (config r) kVSync)]"
proof -
  let ?files1 = "ConfigObject_save (config r) (fs r)"
  let ?mode = "upgradeDeprecatedVSyncModes (decls e) x"
  have read: "getValue (config r) kVSync 0 = ?mode"
    using vsync1 upgradeDeprecatedVSyncModes_range [OF labels count ints]
    by (rule getValue_written)
  have again: "upgradeDeprecatedVSyncModes (decls e) ?mode = ?mode"
    by (rule upgradeDeprecatedVSyncModes_idem [OF labels count])
  have stored2: "stored e sp ?files1 = config r"
    using load_saved [of "config r" "fs r"]
    by (simp add: stored_no_pre170(1) [OF pre] name)
  have version2: "getValueString (stored e sp ?files1) kVersion = version e"
    by (simp add: stored2 getValueString_def version1)
  then have ne2: "getValueString (stored e sp ?files1) kVersion \<noteq> []"
    using running by simp
  have run2: "versionUpgrade e sp ?files1 =
      config_set kVSync (QString_number ?mode) (loaded_state e sp ?files1)"
    using version2
    by (simp add: versionUpgrade_versioned [OF ne2] upgrade_versioned_def Let_def stored2 read again)
  have same: "(m_values (config r))(kVSync \<mapsto> QString_number ?mode) = m_values (config r)"
    using vsync1 by (rule map_upd_triv)
  have "m_values (config (versionUpgrade e sp ?files1)) = m_values (config r)"
    and "m_filename (config (versionUpgrade e sp ?files1)) = m_filename (config r)"
    by (simp_all add: run2 stored2 same)
  then show "config (versionUpgrade e sp ?files1) = config r"
    by (intro ConfigObject.equality) simp_all
  show "trace (versionUpgrade e sp ?files1) = [ConfigSet kVSync (getValueString (config r) kVSync)]"
    by (simp add: run2 stored_no_pre170(3) [OF pre] getValueString_def vsync1)
qed




subsection \<open>The 1.11 step with failing collaborators\<close>

lemma waveform_body_trace:
  "\<exists>calls. trace (waveform_body e s) = trace s @ calls"
  by (simp add: waveform_body_def Let_def split_def)

text \<open>
  C10, as the code has it. For a store whose version starts with "1.11" and
  collaborators that fail: the 1.11 step still asks for the library rescan and records
  the answer, still rescales InitialReplayGainBoost to max(-6, old - 6), and itself
  leaves the version marker as it was, on 1.11. The later steps of the same run then
  give the marker the values "2.6.0" and the running version, so the store that is
  returned is at the running version. A second run of the same build, on that store as
  the caller saved it and whatever the collaborators and the user would answer then,
  makes one call, the rewrite of the vsync mode, and stops at line 379: the 1.11 step
  is not run again and the rescaled value stays as it is.
\<close>

theorem failed_1_11_not_atomic:
  assumes v: "startsWith (getValueString (stored e sp files) kVersion) ''1.11''"
    and failed: "\<not> collaborators_succeed e (stored e sp files)"
    and range: "INT_MIN + 6 \<le> getValue (stored e sp files) kInitialReplayGainBoost 6"
    and cur: "current_version e"
    and dir: "kLegacyDirectoryConfigKey e \<noteq> kVSync"
    and labels: "distinct (vsync_case_labels (decls e))"
    and count: "0 \<le> ST_COUNT (decls e)"
    and ints: "vsync_modes_are_ints (decls e)"
    and build: "version e' = version e \<and> decls e' = decls e \<and>
        MIXXX_SETTINGS_FILE e' = MIXXX_SETTINGS_FILE e"
    and pre: "\<not> QFile_exists
        (ConfigObject_save (config (versionUpgrade e sp files)) (fs (versionUpgrade e sp files)))
        (pre170ConfigPath e')"
  shows "configVersion (step_1_11 e (ladder_start e sp files)) =
           getValueString (stored e sp files) kVersion
       \<and> m_values (config (step_1_11 e (ladder_start e sp files))) kVersion =
           m_values (stored e sp files) kVersion
       \<and> m_values (config (step_1_11 e (ladder_start e sp files))) kInitialReplayGainBoost =
           Some (QString_number
             (max (- 6) (getValue (stored e sp files) kInitialReplayGainBoost 6 - 6)))
       \<and> AskReScanLibrary (askReScanLibrary e) \<in> set (trace (versionUpgrade e sp files))
       \<and> m_bRescanLibrary (versionUpgrade e sp files) = askReScanLibrary e
       \<and> m_values (config (versionUpgrade e sp files)) kInitialReplayGainBoost =
           Some (QString_number
             (max (- 6) (getValue (stored e sp files) kInitialReplayGainBoost 6 - 6)))
       \<and> version_writes (trace (versionUpgrade e sp files)) = [''2.6.0'', version e]
       \<and> getValueString (config (versionUpgrade e sp files)) kVersion = version e
       \<and> trace (versionUpgrade e' sp
           (ConfigObject_save (config (versionUpgrade e sp files)) (fs (versionUpgrade e sp files)))) =
           [ConfigSet kVSync (getValueString (config (versionUpgrade e sp files)) kVSync)]
       \<and> m_values (config (versionUpgrade e' sp
           (ConfigObject_save (config (versionUpgrade e sp files)) (fs (versionUpgrade e sp files)))))
           kInitialReplayGainBoost =
           Some (QString_number
             (max (- 6) (getValue (stored e sp files) kInitialReplayGainBoost 6 - 6)))"
proof -
  let ?s1 = "ladder_start e sp files"
  let ?s2 = "step_1_11 e ?s1"
  let ?r1 = "versionUpgrade e sp files"
  let ?new = "QString_number (max (- 6) (getValue (stored e sp files) kInitialReplayGainBoost 6 - 6))"
  have v1: "startsWith (configVersion ?s1) ''1.11''"
    using v by (simp add: ladder_start_def)
  have failed1: "\<not> collaborators_succeed e (config ?s1)"
    using failed dir by (simp add: ladder_start_def collaborators_succeed_config_set)
  have old: "getValue (config ?s1) kInitialReplayGainBoost 6 =
      getValue (stored e sp files) kInitialReplayGainBoost 6"
    by (simp add: ladder_start_def getValue_config_set)
  have run: "?r1 = config_set kVersion (version e)
      ((waveform_body e (config_set kFrameRate (QString_number 60) ?s2))
         \<lparr>configVersion := version e\<rparr>)"
    by (simp add: versionUpgrade_from_1_11 [OF v cur] ladder_start_def)
  have marker: "configVersion ?s2 = getValueString (stored e sp files) kVersion"
    using failed1 by (simp add: step_1_11_fields(1) [OF v1]) (simp add: ladder_start_def)
  have marker_store: "m_values (config ?s2) kVersion = m_values (stored e sp files) kVersion"
    using failed1 by (simp add: step_1_11_fields(3) [OF v1]) (simp add: ladder_start_def)
  have gain2: "m_values (config ?s2) kInitialReplayGainBoost = Some ?new"
    by (simp add: step_1_11_fields(2) [OF v1] old replay_gain_rescaled [OF range])
  have "AskReScanLibrary (askReScanLibrary e) \<in> set (trace ?s2)"
    using step_1_11_trace [OF v1, of e] by (rule in_set_dropD)
  moreover obtain calls where
    "trace (waveform_body e (config_set kFrameRate (QString_number 60) ?s2)) =
       trace (config_set kFrameRate (QString_number 60) ?s2) @ calls"
    using waveform_body_trace by blast
  ultimately have asked: "AskReScanLibrary (askReScanLibrary e) \<in> set (trace ?r1)"
    by (simp add: run)
  have flag: "m_bRescanLibrary ?r1 = askReScanLibrary e"
    by (simp add: run step_1_11_fields(6) [OF v1])
  have gain: "m_values (config ?r1) kInitialReplayGainBoost = Some ?new"
    by (simp add: run waveform_body_values gain2)
  have writes: "version_writes (trace ?r1) = [''2.6.0'', version e]"
    using failed1 by (simp add: run step_1_11_fields(5) [OF v1]) (simp add: ladder_start_def)
  have version1: "m_values (config ?r1) kVersion = Some (version e)"
    by (simp add: run)
  then have final: "getValueString (config ?r1) kVersion = version e"
    by (simp add: getValueString_def)
  have name: "m_filename (config ?r1) = settingsFilePath e' sp"
    using build
    by (simp add: run step_1_11_fields(8) [OF v1]) (simp add: ladder_start_def settingsFilePath_def)
  have version1': "m_values (config ?r1) kVersion = Some (version e')"
    using build by (simp add: version1)
  have vsync1: "m_values (config ?r1) kVSync =
      Some (QString_number (upgradeDeprecatedVSyncModes (decls e')
        (getValue (stored e sp files) kVSync 0)))"
    using build
    by (simp add: run waveform_body_values step_1_11_fields(4) [OF v1]) (simp add: ladder_start_def)
  have running: "version e' \<noteq> []"
    using cur build current_version_not_empty [of e] by simp
  have labels': "distinct (vsync_case_labels (decls e'))"
    and count': "0 \<le> ST_COUNT (decls e')"
    and ints': "vsync_modes_are_ints (decls e')"
    using labels count ints build by simp_all
  note second = second_run [OF name version1' vsync1 running labels' count' ints' pre]
  show ?thesis
    using marker marker_store gain2 asked flag gain writes final second by simp
qed

theorem failed_1_11_not_atomic_witness:
  "startsWith (getValueString (stored failing_environment sample_settings_path store_1_11) kVersion)
     ''1.11''
   \<and> \<not> collaborators_succeed failing_environment
        (stored failing_environment sample_settings_path store_1_11)
   \<and> INT_MIN + 6 \<le> getValue (stored failing_environment sample_settings_path store_1_11)
        kInitialReplayGainBoost 6
   \<and> current_version failing_environment
   \<and> kLegacyDirectoryConfigKey failing_environment \<noteq> kVSync
   \<and> distinct (vsync_case_labels (decls failing_environment))
   \<and> 0 \<le> ST_COUNT (decls failing_environment)
   \<and> vsync_modes_are_ints (decls failing_environment)
   \<and> version sample_environment = version failing_environment
   \<and> decls sample_environment = decls failing_environment
   \<and> MIXXX_SETTINGS_FILE sample_environment = MIXXX_SETTINGS_FILE failing_environment
   \<and> collaborators_succeed sample_environment
        (config (versionUpgrade failing_environment sample_settings_path store_1_11))
   \<and> \<not> QFile_exists
        (ConfigObject_save
           (config (versionUpgrade failing_environment sample_settings_path store_1_11))
           (fs (versionUpgrade failing_environment sample_settings_path store_1_11)))
        (pre170ConfigPath sample_environment)
   \<and> configVersion (step_1_11 failing_environment
        (ladder_start failing_environment sample_settings_path store_1_11)) = ''1.11.0''
   \<and> m_values (config (step_1_11 failing_environment
        (ladder_start failing_environment sample_settings_path store_1_11))) kVersion =
       Some ''1.11.0''
   \<and> AskReScanLibrary True \<in>
       set (trace (versionUpgrade failing_environment sample_settings_path store_1_11))
   \<and> m_bRescanLibrary (versionUpgrade failing_environment sample_settings_path store_1_11)
   \<and> m_values (config (versionUpgrade failing_environment sample_settings_path store_1_11))
        kInitialReplayGainBoost = Some ''-3''
   \<and> version_writes (trace (versionUpgrade failing_environment sample_settings_path store_1_11)) =
       [''2.6.0'', ''2.6.0'']
   \<and> trace (versionUpgrade sample_environment sample_settings_path
        (ConfigObject_save
           (config (versionUpgrade failing_environment sample_settings_path store_1_11))
           (fs (versionUpgrade failing_environment sample_settings_path store_1_11)))) =
       [ConfigSet kVSync ''0'']
   \<and> m_values (config (versionUpgrade sample_environment sample_settings_path
        (ConfigObject_save
           (config (versionUpgrade failing_environment sample_settings_path store_1_11))
           (fs (versionUpgrade failing_environment sample_settings_path store_1_11)))))
        kInitialReplayGainBoost = Some ''-3''"
proof -
  let ?e = failing_environment
  have v: "startsWith (getValueString (stored ?e sample_settings_path store_1_11) kVersion) ''1.11''"
    by code_simp
  have failed: "\<not> collaborators_succeed ?e (stored ?e sample_settings_path store_1_11)"
    by code_simp
  have old: "getValue (stored ?e sample_settings_path store_1_11) kInitialReplayGainBoost 6 = 3"
    by code_simp
  have range: "INT_MIN + 6 \<le> getValue (stored ?e sample_settings_path store_1_11)
      kInitialReplayGainBoost 6"
    by (simp add: old INT_MIN_def)
  have cur: "current_version ?e"
    by code_simp
  have dir: "kLegacyDirectoryConfigKey ?e \<noteq> kVSync"
    by code_simp
  have labels: "distinct (vsync_case_labels (decls ?e))"
    by code_simp
  have count: "0 \<le> ST_COUNT (decls ?e)"
    by code_simp
  have ints: "vsync_modes_are_ints (decls ?e)"
    by code_simp
  have build: "version sample_environment = version ?e \<and> decls sample_environment = decls ?e \<and>
      MIXXX_SETTINGS_FILE sample_environment = MIXXX_SETTINGS_FILE ?e"
    by (simp add: failing_environment_def)
  have now: "collaborators_succeed sample_environment
      (config (versionUpgrade ?e sample_settings_path store_1_11))"
    by (simp add: collaborators_succeed_def)
  have pre: "\<not> QFile_exists
      (ConfigObject_save (config (versionUpgrade ?e sample_settings_path store_1_11))
         (fs (versionUpgrade ?e sample_settings_path store_1_11)))
      (pre170ConfigPath sample_environment)"
    by code_simp
  have read: "getValueString (stored ?e sample_settings_path store_1_11) kVersion = ''1.11.0''"
    "m_values (stored ?e sample_settings_path store_1_11) kVersion = Some ''1.11.0''"
    "getValueString (config (versionUpgrade ?e sample_settings_path store_1_11)) kVSync = ''0''"
    by code_simp+
  have number: "QString_number (- 3) = ''-3''"
    by (simp add: QString_number_def digits_of_nat.simps digit_char_simps)
  have answers: "askReScanLibrary ?e" "version ?e = ''2.6.0''"
    by (simp_all add: failing_environment_def)
  from failed_1_11_not_atomic [OF v failed range cur dir labels count ints build pre]
    v failed range cur dir labels count ints build now pre
  show ?thesis
    by (simp add: old read number answers)
qed

text \<open>
  C10 as stated fails on its consequence: after the run with the failing schema
  initialization the store is at the running version 2.6.0, not on 1.11, and a second
  run on the saved store, now with collaborators that succeed, leaves the gain at -3 (a
  repeated subtraction would give -6); its only call is the rewrite of the vsync mode.
\<close>

theorem failed_1_11_not_atomic_counterexample:
  "getValueString (config (versionUpgrade failing_environment sample_settings_path store_1_11))
     kVersion = ''2.6.0''
   \<and> m_values (config (versionUpgrade failing_environment sample_settings_path store_1_11))
        kInitialReplayGainBoost = Some ''-3''
   \<and> trace (versionUpgrade sample_environment sample_settings_path
        (ConfigObject_save
           (config (versionUpgrade failing_environment sample_settings_path store_1_11))
           (fs (versionUpgrade failing_environment sample_settings_path store_1_11)))) =
       [ConfigSet kVSync ''0'']
   \<and> m_values (config (versionUpgrade sample_environment sample_settings_path
        (ConfigObject_save
           (config (versionUpgrade failing_environment sample_settings_path store_1_11))
           (fs (versionUpgrade failing_environment sample_settings_path store_1_11)))))
        kInitialReplayGainBoost = Some ''-3''"
  by code_simp

end
